theory Spec2Isabelle
  imports Main
begin

section \<open>The declarations of form460.py\<close>

text \<open>
  form460.py declares Django models: classes whose attributes are field objects and whose
  \<^verbatim>\<open>Meta\<close> lists the composite uniqueness constraints. Each declaration is kept as data,
  with the options the source writes (\<^verbatim>\<open>null\<close>, \<^verbatim>\<open>primary_key\<close>, for a
  \<^verbatim>\<open>DecimalField\<close> its \<^verbatim>\<open>max_digits\<close> and \<^verbatim>\<open>decimal_places\<close>, for a \<^verbatim>\<open>CharField\<close> its
  \<^verbatim>\<open>max_length\<close>, and for a \<^verbatim>\<open>ForeignKey\<close> its target, \<^verbatim>\<open>on_delete\<close> and
  \<^verbatim>\<open>db_constraint\<close>). Options the source leaves out take Django's defaults:
  \<^verbatim>\<open>null=False\<close>, \<^verbatim>\<open>primary_key=False\<close>, \<^verbatim>\<open>db_constraint=True\<close>. The options that only
  label or index a column (\<^verbatim>\<open>verbose_name\<close>, \<^verbatim>\<open>help_text\<close>, \<^verbatim>\<open>db_index\<close>,
  \<^verbatim>\<open>index_together\<close>, \<^verbatim>\<open>related_name\<close>) or only bind forms (\<^verbatim>\<open>blank\<close>) are left out.
\<close>

datatype model_name =
    Form460Filing | Form460FilingVersion
  | Form460ScheduleAItem | Form460ScheduleAItemVersion
  | Form460ScheduleCItem | Form460ScheduleCItemVersion
  | Form460ScheduleDItem | Form460ScheduleDItemVersion
  | Form460ScheduleEItem | Form460ScheduleEItemVersion
  | Form460ScheduleESubItem | Form460ScheduleESubItemVersion
  | Form460ScheduleGItem | Form460ScheduleGItemVersion
  | Form460ScheduleIItem | Form460ScheduleIItemVersion

text \<open>The deletion policies of \<^verbatim>\<open>django.db.models\<close> that need no recursion into further
  tables; the source uses \<^verbatim>\<open>SET_NULL\<close> only.\<close>

datatype on_delete = SET_NULL | PROTECT | DO_NOTHING

text \<open>\<open>DecimalField max_digits decimal_places\<close>, \<open>CharField max_length\<close>,
  \<open>ForeignKey to on_delete db_constraint\<close>.\<close>

datatype field_type =
    IntegerField | DateField | DecimalField nat nat | CharField nat | AutoField
  | ForeignKey model_name on_delete bool

text \<open>\<open>Field name type null primary_key\<close>.\<close>

datatype field = Field (name: string) (ftype: field_type) (null: bool) (primary_key: bool)

text \<open>
  Modelled from the spec: the abstract bases \<^verbatim>\<open>CampaignFinanceFilingBase\<close>,
  \<^verbatim>\<open>CampaignContributionBase\<close>, \<^verbatim>\<open>CampaignExpenditureItemBase\<close> and
  \<^verbatim>\<open>CampaignExpenditureSubItemBase\<close> are imported by form460.py and are not part of it.
  The spec gives every itemized transaction a required line-item number and a required
  monetary amount, and names no field of the filing base. Schedules A and I declare
  \<^verbatim>\<open>amount\<close> themselves and Schedule C declares \<^verbatim>\<open>fair_market_value\<close> in its place, so
  the contribution base carries the line item only; the amount of the expenditure bases
  is given the digits of the amounts form460.py declares.
\<close>

definition CampaignFinanceFilingBase :: "field list" where
  "CampaignFinanceFilingBase = []"

definition CampaignContributionBase :: "field list" where
  "CampaignContributionBase = [Field ''line_item'' IntegerField False False]"

definition CampaignExpenditureItemBase :: "field list" where
  "CampaignExpenditureItemBase =
     [Field ''line_item'' IntegerField False False,
      Field ''amount'' (DecimalField 14 2) False False]"

definition CampaignExpenditureSubItemBase :: "field list" where
  "CampaignExpenditureSubItemBase =
     [Field ''line_item'' IntegerField False False,
      Field ''amount'' (DecimalField 14 2) False False]"

text \<open>The nineteen summary totals of \<^verbatim>\<open>Form460FilingBase\<close>, each
  \<^verbatim>\<open>IntegerField(null=True)\<close>.\<close>

definition summary_totals :: "string list" where
  "summary_totals =
     [''monetary_contributions'', ''loans_received'', ''subtotal_cash_contributions'',
      ''nonmonetary_contributions'', ''total_contributions'', ''payments_made'',
      ''loans_made'', ''subtotal_cash_payments'', ''unpaid_bills'',
      ''nonmonetary_adjustment'', ''total_expenditures_made'', ''begin_cash_balance'',
      ''cash_receipts'', ''miscellaneous_cash_increases'', ''cash_payments'',
      ''ending_cash_balance'', ''loan_guarantees_received'', ''cash_equivalents'',
      ''outstanding_debts'']"

definition Form460FilingBase :: "field list" where
  "Form460FilingBase =
     CampaignFinanceFilingBase @
     [Field ''from_date'' DateField False False,
      Field ''thru_date'' DateField False False] @
     map (\<lambda>n. Field n IntegerField True False) summary_totals"

definition Form460ScheduleAItemBase :: "field list" where
  "Form460ScheduleAItemBase =
     CampaignContributionBase @ [Field ''amount'' (DecimalField 14 2) False False]"

definition Form460ScheduleCItemBase :: "field list" where
  "Form460ScheduleCItemBase =
     CampaignContributionBase @
     [Field ''fair_market_value'' (DecimalField 14 2) False False,
      Field ''contribution_description'' (CharField 90) False False]"

definition Form460ScheduleDItemBase :: "field list" where
  "Form460ScheduleDItemBase =
     CampaignExpenditureItemBase @
     [Field ''cumulative_election_amount'' (DecimalField 14 2) True False]"

definition Form460ScheduleGItemBase :: "field list" where
  "Form460ScheduleGItemBase =
     CampaignExpenditureSubItemBase @
     [Field ''agent_title'' (CharField 10) False False,
      Field ''agent_lastname'' (CharField 200) False False,
      Field ''agent_firstname'' (CharField 45) False False,
      Field ''agent_name_suffix'' (CharField 10) False False,
      Field ''parent_schedule'' (CharField 1) False False]"

definition Form460ScheduleIItemBase :: "field list" where
  "Form460ScheduleIItemBase =
     CampaignContributionBase @
     [Field ''amount'' (DecimalField 14 2) False False,
      Field ''receipt_description'' (CharField 90) False False]"

text \<open>The fields each concrete model declares, after those of its base. Only
  \<^verbatim>\<open>Form460FilingVersion.filing\<close> and \<^verbatim>\<open>Form460ScheduleIItem.filing\<close> are written with
  \<^verbatim>\<open>db_constraint=False\<close>.\<close>

fun declared :: "model_name \<Rightarrow> field list" where
  "declared Form460Filing =
     Form460FilingBase @
     [Field ''filing_id'' IntegerField False True,
      Field ''amendment_count'' IntegerField False False]"
| "declared Form460FilingVersion =
     Form460FilingBase @
     [Field ''filing'' (ForeignKey Form460Filing SET_NULL False) True False,
      Field ''amend_id'' IntegerField False False]"
| "declared Form460ScheduleAItem =
     Form460ScheduleAItemBase @
     [Field ''filing'' (ForeignKey Form460Filing SET_NULL True) True False]"
| "declared Form460ScheduleAItemVersion =
     Form460ScheduleAItemBase @
     [Field ''filing_version'' (ForeignKey Form460FilingVersion SET_NULL True) True False]"
| "declared Form460ScheduleCItem =
     Form460ScheduleCItemBase @
     [Field ''filing'' (ForeignKey Form460Filing SET_NULL True) True False]"
| "declared Form460ScheduleCItemVersion =
     Form460ScheduleCItemBase @
     [Field ''filing_version'' (ForeignKey Form460FilingVersion SET_NULL True) True False]"
| "declared Form460ScheduleDItem =
     Form460ScheduleDItemBase @
     [Field ''filing'' (ForeignKey Form460Filing SET_NULL True) True False]"
| "declared Form460ScheduleDItemVersion =
     Form460ScheduleDItemBase @
     [Field ''filing_version'' (ForeignKey Form460FilingVersion SET_NULL True) True False]"
| "declared Form460ScheduleEItem =
     CampaignExpenditureItemBase @
     [Field ''filing'' (ForeignKey Form460Filing SET_NULL True) True False]"
| "declared Form460ScheduleEItemVersion =
     CampaignExpenditureItemBase @
     [Field ''filing_version'' (ForeignKey Form460FilingVersion SET_NULL True) True False]"
| "declared Form460ScheduleESubItem =
     CampaignExpenditureSubItemBase @
     [Field ''filing'' (ForeignKey Form460Filing SET_NULL True) True False]"
| "declared Form460ScheduleESubItemVersion =
     CampaignExpenditureSubItemBase @
     [Field ''filing_version'' (ForeignKey Form460FilingVersion SET_NULL True) True False]"
| "declared Form460ScheduleGItem =
     Form460ScheduleGItemBase @
     [Field ''filing'' (ForeignKey Form460Filing SET_NULL True) True False]"
| "declared Form460ScheduleGItemVersion =
     Form460ScheduleGItemBase @
     [Field ''filing_version'' (ForeignKey Form460FilingVersion SET_NULL True) True False]"
| "declared Form460ScheduleIItem =
     Form460ScheduleIItemBase @
     [Field ''filing'' (ForeignKey Form460Filing SET_NULL False) True False]"
| "declared Form460ScheduleIItemVersion =
     Form460ScheduleIItemBase @
     [Field ''filing_version'' (ForeignKey Form460FilingVersion SET_NULL True) True False]"

text \<open>A model that declares no primary key gets Django's \<^verbatim>\<open>id = AutoField(primary_key=True)\<close>.\<close>

definition fields :: "model_name \<Rightarrow> field list" where
  "fields m =
     (if list_ex primary_key (declared m) then declared m
      else Field ''id'' AutoField False True # declared m)"

definition pk_name :: "model_name \<Rightarrow> string" where
  "pk_name m = (case find primary_key (fields m) of Some f \<Rightarrow> name f | None \<Rightarrow> ''id'')"

text \<open>\<^verbatim>\<open>Meta.unique_together\<close>.\<close>

fun unique_together :: "model_name \<Rightarrow> string list list" where
  "unique_together Form460Filing = []"
| "unique_together Form460FilingVersion = [[''filing'', ''amend_id'']]"
| "unique_together Form460ScheduleAItem = [[''filing'', ''line_item'']]"
| "unique_together Form460ScheduleAItemVersion = [[''filing_version'', ''line_item'']]"
| "unique_together Form460ScheduleCItem = [[''filing'', ''line_item'']]"
| "unique_together Form460ScheduleCItemVersion = [[''filing_version'', ''line_item'']]"
| "unique_together Form460ScheduleDItem = [[''filing'', ''line_item'']]"
| "unique_together Form460ScheduleDItemVersion = [[''filing_version'', ''line_item'']]"
| "unique_together Form460ScheduleEItem = [[''filing'', ''line_item'']]"
| "unique_together Form460ScheduleEItemVersion = [[''filing_version'', ''line_item'']]"
| "unique_together Form460ScheduleESubItem = [[''filing'', ''line_item'']]"
| "unique_together Form460ScheduleESubItemVersion = [[''filing_version'', ''line_item'']]"
| "unique_together Form460ScheduleGItem = [[''filing'', ''line_item'']]"
| "unique_together Form460ScheduleGItemVersion = [[''filing_version'', ''line_item'']]"
| "unique_together Form460ScheduleIItem = [[''filing'', ''line_item'']]"
| "unique_together Form460ScheduleIItemVersion = [[''filing_version'', ''line_item'']]"

definition all_models :: "model_name list" where
  "all_models =
     [Form460Filing, Form460FilingVersion,
      Form460ScheduleAItem, Form460ScheduleAItemVersion,
      Form460ScheduleCItem, Form460ScheduleCItemVersion,
      Form460ScheduleDItem, Form460ScheduleDItemVersion,
      Form460ScheduleEItem, Form460ScheduleEItemVersion,
      Form460ScheduleESubItem, Form460ScheduleESubItemVersion,
      Form460ScheduleGItem, Form460ScheduleGItemVersion,
      Form460ScheduleIItem, Form460ScheduleIItemVersion]"

text \<open>The name of the parent reference of a version or item model: the one
  \<^verbatim>\<open>ForeignKey\<close> it declares.\<close>

definition parent_field :: "model_name \<Rightarrow> string option" where
  "parent_field m =
     (case find (\<lambda>f. case ftype f of ForeignKey _ _ _ \<Rightarrow> True | _ \<Rightarrow> False) (fields m) of
        Some f \<Rightarrow> Some (name f) | None \<Rightarrow> None)"

section \<open>Rows and the store\<close>

text \<open>
  A column value: an integer, a date (year, month, day), a decimal with two places kept
  in hundredths (\<^verbatim>\<open>decimal_places=2\<close>), or a string. A row maps a field name to its value;
  \<open>None\<close> is SQL's NULL and Python's \<^verbatim>\<open>None\<close>, and a field left out of the keyword
  arguments. A foreign key holds the primary key of the row it refers to (Django's
  \<^verbatim>\<open>filing_id\<close> attribute of the field \<^verbatim>\<open>filing\<close>). The store is one table per model, in
  insertion order, and for each table the largest \<^verbatim>\<open>id\<close> it has ever held: the database
  draws the \<^verbatim>\<open>id\<close> of an \<^verbatim>\<open>AutoField\<close> from a sequence and does not hand out the
  \<^verbatim>\<open>id\<close> of a deleted row again.
\<close>

datatype val = IntV int | DateV int int int | DecV int | StrV string

type_synonym row = "string \<Rightarrow> val option"

datatype store = Store (tables: "model_name \<Rightarrow> row list") (sequence: "model_name \<Rightarrow> int")

definition empty_store :: store where
  "empty_store = Store (\<lambda>m. []) (\<lambda>m. 0)"

datatype violation = NotNull string | Unique "string list" | ForeignKeyViolation string

datatype error =
    IntegrityError violation | DoesNotExist | MultipleObjectsReturned
  | AttributeError | ProtectedError

section \<open>Writing and reading rows\<close>

text \<open>
  The operations below are the ones Django's manager and model give every class of
  form460.py (\<^verbatim>\<open>objects.create\<close>, \<^verbatim>\<open>objects.get\<close>, \<^verbatim>\<open>delete\<close>), read off the declarations
  above together with the constraints the declarations put on the table: NOT NULL for
  \<^verbatim>\<open>null=False\<close>, uniqueness of the primary key and of each \<^verbatim>\<open>unique_together\<close> tuple, and
  a foreign-key constraint for each \<^verbatim>\<open>ForeignKey\<close> unless \<^verbatim>\<open>db_constraint=False\<close>. A write
  that breaks a constraint raises \<^verbatim>\<open>IntegrityError\<close> and leaves the store as it was.

  The keyword arguments of a creation are taken to be well formed: each names a field of
  the model and gives a value its field takes (an integer the column can hold, a decimal
  within \<^verbatim>\<open>max_digits\<close>, a date). For any other argument Django raises before the row
  reaches the table (\<^verbatim>\<open>TypeError\<close> for a keyword that is no field, \<^verbatim>\<open>ValueError\<close> or
  \<^verbatim>\<open>InvalidOperation\<close> for a value that does not fit) and stores nothing; those errors
  are not constraint violations and are not among the results below. An absent primary
  key of \<^verbatim>\<open>Form460Filing\<close> is treated as the declared \<^verbatim>\<open>null=False\<close> says; a database
  that fills an absent integer key itself (SQLite) accepts such a row.
\<close>

text \<open>\<^verbatim>\<open>Field.get_default\<close> for a field declared without \<^verbatim>\<open>default\<close>: the empty string
  for a non-null \<^verbatim>\<open>CharField\<close>, \<^verbatim>\<open>None\<close> for every other field.\<close>

definition get_default :: "field \<Rightarrow> val option" where
  "get_default f =
     (case ftype f of
        CharField l \<Rightarrow> if null f then None else Some (StrV [])
      | _ \<Rightarrow> None)"

text \<open>The value an \<^verbatim>\<open>AutoField\<close> receives when none is given: one more than the largest
  \<^verbatim>\<open>id\<close> the table holds or has ever held (SQLite's \<^verbatim>\<open>AUTOINCREMENT\<close>, which Django
  declares for an \<^verbatim>\<open>AutoField\<close>).\<close>

definition next_id :: "store \<Rightarrow> model_name \<Rightarrow> int" where
  "next_id st m =
     fold (\<lambda>e n. case e ''id'' of Some (IntV i) \<Rightarrow> max i n | _ \<Rightarrow> n)
       (tables st m) (sequence st m) + 1"

text \<open>The row \<^verbatim>\<open>Model(**kwargs)\<close> sends to the table: the declared fields only, each with
  the given value, or else its default.\<close>

definition model_init :: "store \<Rightarrow> model_name \<Rightarrow> row \<Rightarrow> row" where
  "model_init st m kwargs =
     (\<lambda>n. case find (\<lambda>f. name f = n) (fields m) of
            None \<Rightarrow> None
          | Some f \<Rightarrow>
              (case kwargs n of
                 Some v \<Rightarrow> Some v
               | None \<Rightarrow>
                   if ftype f = AutoField then Some (IntV (next_id st m))
                   else get_default f))"

definition null_violations :: "model_name \<Rightarrow> row \<Rightarrow> string list" where
  "null_violations m r =
     map name (filter (\<lambda>f. \<not> null f \<and> r (name f) = None) (fields m))"

text \<open>Two rows collide on a tuple of columns when every column of the tuple is non-null
  and equal in both: a unique constraint never matches a NULL.\<close>

definition conflicts :: "string list \<Rightarrow> row \<Rightarrow> row \<Rightarrow> bool" where
  "conflicts u r e = list_all (\<lambda>n. r n \<noteq> None \<and> e n = r n) u"

definition unique_constraints :: "model_name \<Rightarrow> string list list" where
  "unique_constraints m = [pk_name m] # unique_together m"

definition unique_violations :: "store \<Rightarrow> model_name \<Rightarrow> row \<Rightarrow> string list list" where
  "unique_violations st m r =
     filter (\<lambda>u. list_ex (conflicts u r) (tables st m)) (unique_constraints m)"

definition exists_pk :: "store \<Rightarrow> model_name \<Rightarrow> val \<Rightarrow> bool" where
  "exists_pk st m v = list_ex (\<lambda>e. e (pk_name m) = Some v) (tables st m)"

fun dangling :: "store \<Rightarrow> row \<Rightarrow> field \<Rightarrow> bool" where
  "dangling st r (Field n (ForeignKey to od True) nl pk) =
     (case r n of None \<Rightarrow> False | Some v \<Rightarrow> \<not> exists_pk st to v)"
| "dangling st r f = False"

definition fk_violations :: "store \<Rightarrow> model_name \<Rightarrow> row \<Rightarrow> string list" where
  "fk_violations st m r = map name (filter (dangling st r) (fields m))"

text \<open>The store with a row appended to a table; the table's sequence moves up to the
  row's \<^verbatim>\<open>id\<close>.\<close>

definition insert_row :: "store \<Rightarrow> model_name \<Rightarrow> row \<Rightarrow> store" where
  "insert_row st m r =
     Store ((tables st)(m := tables st m @ [r]))
       ((sequence st)
          (m := (case r ''id'' of Some (IntV i) \<Rightarrow> max i (sequence st m)
                 | _ \<Rightarrow> sequence st m)))"

text \<open>\<^verbatim>\<open>Model.objects.create(**kwargs)\<close>: the primary key of the new row and the store
  with the row appended, or the first violated constraint and the store as it was.\<close>

definition create :: "store \<Rightarrow> model_name \<Rightarrow> row \<Rightarrow> (error + val) \<times> store" where
  "create st m kwargs =
     (let r = model_init st m kwargs in
      case null_violations m r of
        n # _ \<Rightarrow> (Inl (IntegrityError (NotNull n)), st)
      | [] \<Rightarrow>
          (case unique_violations st m r of
             u # _ \<Rightarrow> (Inl (IntegrityError (Unique u)), st)
           | [] \<Rightarrow>
               (case fk_violations st m r of
                  n # _ \<Rightarrow> (Inl (IntegrityError (ForeignKeyViolation n)), st)
                | [] \<Rightarrow> (Inr (the (r (pk_name m))), insert_row st m r))))"

text \<open>\<^verbatim>\<open>Model.objects.filter(**query)\<close> and \<^verbatim>\<open>Model.objects.get(**query)\<close>.\<close>

definition filter_rows :: "store \<Rightarrow> model_name \<Rightarrow> (string \<times> val) list \<Rightarrow> row list" where
  "filter_rows st m query =
     filter (\<lambda>e. list_all (\<lambda>(n, v). e n = Some v) query) (tables st m)"

definition get :: "store \<Rightarrow> model_name \<Rightarrow> (string \<times> val) list \<Rightarrow> error + row" where
  "get st m query =
     (case filter_rows st m query of
        [] \<Rightarrow> Inl DoesNotExist
      | [r] \<Rightarrow> Inr r
      | _ \<Rightarrow> Inl MultipleObjectsReturned)"

text \<open>The foreign keys of model \<open>m'\<close> that point to model \<open>m\<close>, each with its deletion
  policy.\<close>

fun points_to :: "model_name \<Rightarrow> field \<Rightarrow> (string \<times> on_delete) option" where
  "points_to m (Field n (ForeignKey to od c) nl pk) = (if to = m then Some (n, od) else None)"
| "points_to m f = None"

definition fks_to :: "model_name \<Rightarrow> model_name \<Rightarrow> (string \<times> on_delete) list" where
  "fks_to m m' = List.map_filter (points_to m) (fields m')"

definition on_delete_row :: "model_name \<Rightarrow> val \<Rightarrow> model_name \<Rightarrow> row \<Rightarrow> row" where
  "on_delete_row m pk m' e =
     fold (\<lambda>(n, od) e. if od = SET_NULL \<and> e n = Some pk then e(n := None) else e)
       (fks_to m m') e"

definition protected :: "store \<Rightarrow> model_name \<Rightarrow> val \<Rightarrow> bool" where
  "protected st m pk =
     list_ex (\<lambda>m'. list_ex (\<lambda>(n, od). od = PROTECT \<and>
                                list_ex (\<lambda>e. e n = Some pk) (tables st m'))
                      (fks_to m m')) all_models"

text \<open>\<^verbatim>\<open>Model.objects.filter(pk=pk).delete()\<close>: when no row has the key, Django's
  collector collects nothing and no table changes. Otherwise it applies the
  \<^verbatim>\<open>on_delete\<close> policy of every foreign key that points to the model to the rows that
  refer to the key, then removes the row. The sequences stay as they are.\<close>

definition delete :: "store \<Rightarrow> model_name \<Rightarrow> val \<Rightarrow> (error + unit) \<times> store" where
  "delete st m pk =
     (if \<not> exists_pk st m pk then (Inr (), st)
      else if protected st m pk then (Inl ProtectedError, st)
      else (Inr (),
            Store
              (\<lambda>m'. let rows = map (on_delete_row m pk m') (tables st m') in
                     if m' = m then filter (\<lambda>e. e (pk_name m) \<noteq> Some pk) rows
                     else rows)
              (sequence st)))"

section \<open>String representations\<close>

text \<open>Python's \<^verbatim>\<open>'%s' % x\<close>: the decimal digits of an integer, \<^verbatim>\<open>None\<close> for the
  absent value, the ISO form of a date, the two-place form of a decimal.\<close>

fun digits :: "nat \<Rightarrow> string" where
  "digits n =
     (if n < 10 then [''0123456789'' ! n]
      else digits (n div 10) @ [''0123456789'' ! (n mod 10)])"

definition str_int :: "int \<Rightarrow> string" where
  "str_int i = (if i < 0 then ''-'' @ digits (nat (- i)) else digits (nat i))"

definition zfill :: "nat \<Rightarrow> string \<Rightarrow> string" where
  "zfill w s = replicate (w - length s) (CHR ''0'') @ s"

definition py_str :: "val option \<Rightarrow> string" where
  "py_str x =
     (case x of
        None \<Rightarrow> ''None''
      | Some (IntV i) \<Rightarrow> str_int i
      | Some (StrV s) \<Rightarrow> s
      | Some (DateV y m d) \<Rightarrow>
          zfill 4 (digits (nat y)) @ ''-'' @ zfill 2 (digits (nat m)) @ ''-'' @
          zfill 2 (digits (nat d))
      | Some (DecV c) \<Rightarrow>
          (if c < 0 then ''-'' else []) @ digits (nat \<bar>c\<bar> div 100) @ ''.'' @
          zfill 2 (digits (nat \<bar>c\<bar> mod 100)))"

text \<open>Reading a \<^verbatim>\<open>ForeignKey\<close> attribute (\<^verbatim>\<open>self.filing\<close>, \<^verbatim>\<open>self.filing_version\<close>):
  \<^verbatim>\<open>None\<close> when the stored key is absent, the referenced row when it exists, and
  \<^verbatim>\<open>DoesNotExist\<close> when the key names no row.\<close>

definition related :: "store \<Rightarrow> model_name \<Rightarrow> val option \<Rightarrow> error + row option" where
  "related st to k =
     (case k of
        None \<Rightarrow> Inr None
      | Some v \<Rightarrow>
          (case find (\<lambda>e. e (pk_name to) = Some v) (tables st to) of
             None \<Rightarrow> Inl DoesNotExist
           | Some e \<Rightarrow> Inr (Some e)))"

text \<open>\<^verbatim>\<open>Form460Filing.__str__\<close>: \<^verbatim>\<open>str(self.filing_id)\<close>.\<close>

definition Form460Filing_str :: "row \<Rightarrow> string" where
  "Form460Filing_str r = py_str (r ''filing_id'')"

text \<open>\<^verbatim>\<open>'%s-%s' % (self.filing, x)\<close>, the \<^verbatim>\<open>__str__\<close> of \<^verbatim>\<open>Form460FilingVersion\<close> (with
  \<^verbatim>\<open>amend_id\<close>) and of every current-tier item (with \<^verbatim>\<open>line_item\<close>): the filing is
  formatted through its own \<^verbatim>\<open>__str__\<close>, an absent filing as \<^verbatim>\<open>None\<close>.\<close>

definition filing_dash_str :: "store \<Rightarrow> row \<Rightarrow> string \<Rightarrow> error + string" where
  "filing_dash_str st r x =
     (case related st Form460Filing (r ''filing'') of
        Inl e \<Rightarrow> Inl e
      | Inr None \<Rightarrow> Inr (py_str None @ ''-'' @ py_str (r x))
      | Inr (Some f) \<Rightarrow> Inr (Form460Filing_str f @ ''-'' @ py_str (r x)))"

text \<open>\<^verbatim>\<open>'%s-%s-%s' % (self.filing_version.filing_id, self.filing_version.amend_id,
  self.line_item)\<close>, the \<^verbatim>\<open>__str__\<close> of every version-tier item: an attribute of
  \<^verbatim>\<open>None\<close> is an \<^verbatim>\<open>AttributeError\<close>.\<close>

definition version_dash_str :: "store \<Rightarrow> row \<Rightarrow> error + string" where
  "version_dash_str st r =
     (case related st Form460FilingVersion (r ''filing_version'') of
        Inl e \<Rightarrow> Inl e
      | Inr None \<Rightarrow> Inl AttributeError
      | Inr (Some v) \<Rightarrow>
          Inr (py_str (v ''filing'') @ ''-'' @ py_str (v ''amend_id'') @ ''-'' @
               py_str (r ''line_item'')))"

fun str_of :: "model_name \<Rightarrow> store \<Rightarrow> row \<Rightarrow> error + string" where
  "str_of Form460Filing st r = Inr (Form460Filing_str r)"
| "str_of Form460FilingVersion st r = filing_dash_str st r ''amend_id''"
| "str_of Form460ScheduleAItem st r = filing_dash_str st r ''line_item''"
| "str_of Form460ScheduleAItemVersion st r = version_dash_str st r"
| "str_of Form460ScheduleCItem st r = filing_dash_str st r ''line_item''"
| "str_of Form460ScheduleCItemVersion st r = version_dash_str st r"
| "str_of Form460ScheduleDItem st r = filing_dash_str st r ''line_item''"
| "str_of Form460ScheduleDItemVersion st r = version_dash_str st r"
| "str_of Form460ScheduleEItem st r = filing_dash_str st r ''line_item''"
| "str_of Form460ScheduleEItemVersion st r = version_dash_str st r"
| "str_of Form460ScheduleESubItem st r = filing_dash_str st r ''line_item''"
| "str_of Form460ScheduleESubItemVersion st r = version_dash_str st r"
| "str_of Form460ScheduleGItem st r = filing_dash_str st r ''line_item''"
| "str_of Form460ScheduleGItemVersion st r = version_dash_str st r"
| "str_of Form460ScheduleIItem st r = filing_dash_str st r ''line_item''"
| "str_of Form460ScheduleIItemVersion st r = version_dash_str st r"

definition version_items :: "model_name list" where
  "version_items =
     [Form460ScheduleAItemVersion, Form460ScheduleCItemVersion, Form460ScheduleDItemVersion,
      Form460ScheduleEItemVersion, Form460ScheduleESubItemVersion,
      Form460ScheduleGItemVersion, Form460ScheduleIItemVersion]"

definition current_items :: "model_name list" where
  "current_items =
     [Form460ScheduleAItem, Form460ScheduleCItem, Form460ScheduleDItem,
      Form460ScheduleEItem, Form460ScheduleESubItem,
      Form460ScheduleGItem, Form460ScheduleIItem]"

section \<open>Constraints as properties of a store\<close>

text \<open>The columns that are NOT NULL and that neither the database (\<^verbatim>\<open>AutoField\<close>) nor
  a default fills in.\<close>

definition not_null_columns :: "model_name \<Rightarrow> string list" where
  "not_null_columns m =
     map name
       (filter (\<lambda>f. \<not> null f \<and> ftype f \<noteq> AutoField \<and> get_default f = None) (fields m))"

text \<open>The columns a caller has to supply besides the primary key: declared
  \<^verbatim>\<open>null=False\<close> and without a default.\<close>

definition required :: "model_name \<Rightarrow> string list" where
  "required m =
     map name
       (filter (\<lambda>f. \<not> null f \<and> \<not> primary_key f \<and> get_default f = None) (fields m))"

text \<open>A table holds a tuple of columns at most once: no row collides with a later one.\<close>

fun no_duplicates :: "string list \<Rightarrow> row list \<Rightarrow> bool" where
  "no_duplicates u [] = True"
| "no_duplicates u (e # es) = (\<not> list_ex (conflicts u e) es \<and> no_duplicates u es)"

definition unique_together_holds :: "store \<Rightarrow> model_name \<Rightarrow> bool" where
  "unique_together_holds st m =
     list_all (\<lambda>u. no_duplicates u (tables st m)) (unique_together m)"

text \<open>The stores that creations and deletions build from the empty one.\<close>

inductive reachable :: "store \<Rightarrow> bool" where
  reachable_empty: "reachable empty_store"
| reachable_create: "reachable st \<Longrightarrow> reachable (snd (create st m kwargs))"
| reachable_delete: "reachable st \<Longrightarrow> reachable (snd (delete st m pk))"

section \<open>Example rows\<close>

definition filing_1001 :: row where
  "filing_1001 =
     [''filing_id'' \<mapsto> IntV 1001, ''amendment_count'' \<mapsto> IntV 0,
      ''from_date'' \<mapsto> DateV 2020 1 1, ''thru_date'' \<mapsto> DateV 2020 6 30,
      ''monetary_contributions'' \<mapsto> IntV 5000]"

definition version_1001 :: "int \<Rightarrow> row" where
  "version_1001 a =
     [''filing'' \<mapsto> IntV 1001, ''amend_id'' \<mapsto> IntV a,
      ''from_date'' \<mapsto> DateV 2020 1 1, ''thru_date'' \<mapsto> DateV 2020 6 30,
      ''monetary_contributions'' \<mapsto> IntV 5000]"

definition item_1001_1 :: row where
  "item_1001_1 =
     [''filing'' \<mapsto> IntV 1001, ''line_item'' \<mapsto> IntV 1, ''amount'' \<mapsto> DecV 250000]"

definition orphan_version :: row where
  "orphan_version =
     [''amend_id'' \<mapsto> IntV 0,
      ''from_date'' \<mapsto> DateV 2020 1 1, ''thru_date'' \<mapsto> DateV 2020 6 30]"

definition orphan_item :: row where
  "orphan_item = [''line_item'' \<mapsto> IntV 1, ''amount'' \<mapsto> DecV 250000]"

definition dangling_item :: row where
  "dangling_item =
     [''filing'' \<mapsto> IntV 9999, ''line_item'' \<mapsto> IntV 1, ''amount'' \<mapsto> DecV 250000]"

definition bare_filing :: row where
  "bare_filing =
     [''filing_id'' \<mapsto> IntV 1001, ''amendment_count'' \<mapsto> IntV 0,
      ''from_date'' \<mapsto> DateV 2020 1 1, ''thru_date'' \<mapsto> DateV 2020 6 30]"

text \<open>The scenario of the spec: a filing, its original version, one Schedule A item.\<close>

definition store_1 :: store where
  "store_1 = snd (create empty_store Form460Filing filing_1001)"

definition store_2 :: store where
  "store_2 = snd (create store_1 Form460FilingVersion (version_1001 0))"

definition store_3 :: store where
  "store_3 = snd (create store_2 Form460ScheduleAItem item_1001_1)"

text \<open>The values of some columns of a row, in the order asked.\<close>

definition columns :: "string list \<Rightarrow> row \<Rightarrow> val option list" where
  "columns ns e = map e ns"

text \<open>A filing that supplies its identifier and both period bounds and nothing else.\<close>

definition partial_filing :: row where
  "partial_filing =
     [''filing_id'' \<mapsto> IntV 1001,
      ''from_date'' \<mapsto> DateV 2020 1 1, ''thru_date'' \<mapsto> DateV 2020 6 30]"

text \<open>For each model, a row without parent reference that supplies exactly the
  required columns: 1 for an integer, 2020-01-01 for a date, 2500.00 for a decimal.\<close>

fun sample :: "field_type \<Rightarrow> val" where
  "sample DateField = DateV 2020 1 1"
| "sample (DecimalField d p) = DecV 250000"
| "sample (CharField l) = StrV []"
| "sample t = IntV 1"

definition orphan_row :: "model_name \<Rightarrow> row" where
  "orphan_row m =
     (\<lambda>n. case find (\<lambda>f. name f = n) (fields m) of
            None \<Rightarrow> None
          | Some f \<Rightarrow>
              if \<not> null f \<and> \<not> primary_key f \<and> get_default f = None
              then Some (sample (ftype f)) else None)"

text \<open>A store with one version of filing 1001 and no filing.\<close>

definition store_dangling :: store where
  "store_dangling = snd (create empty_store Form460FilingVersion (version_1001 0))"

lemmas decl_defs = fields_def Form460FilingBase_def CampaignFinanceFilingBase_def
  summary_totals_def CampaignContributionBase_def CampaignExpenditureItemBase_def
  CampaignExpenditureSubItemBase_def Form460ScheduleAItemBase_def
  Form460ScheduleCItemBase_def Form460ScheduleDItemBase_def Form460ScheduleGItemBase_def
  Form460ScheduleIItemBase_def

lemma distinct_names: "distinct (map name (fields m))"
  by (cases m) (simp_all add: decl_defs)

lemma find_by_name:
  "distinct (map name fs) \<Longrightarrow> f \<in> set fs \<Longrightarrow> find (\<lambda>g. name g = name f) fs = Some f"
  by (induction fs) (auto simp: image_iff)

lemma find_field: "f \<in> set (fields m) \<Longrightarrow> find (\<lambda>g. name g = name f) (fields m) = Some f"
  by (rule find_by_name[OF distinct_names])

lemma model_init_field:
  "f \<in> set (fields m) \<Longrightarrow>
   model_init st m kw (name f) =
     (case kw (name f) of
        Some v \<Rightarrow> Some v
      | None \<Rightarrow> if ftype f = AutoField then Some (IntV (next_id st m)) else get_default f)"
  by (simp add: model_init_def find_field)

lemma model_init_plain:
  assumes "Field n t nl pk \<in> set (fields m)" and "t \<noteq> AutoField"
    and "\<forall>l. t \<noteq> CharField l"
  shows "model_init st m kw n = kw n"
  using model_init_field[OF assms(1), of st kw] assms(2,3)
  by (cases t) (simp_all add: get_default_def split: option.splits)

lemma pk_name_Filing: "pk_name Form460Filing = ''filing_id''"
  by (simp add: pk_name_def decl_defs)

lemma pk_name_other: "m \<noteq> Form460Filing \<Longrightarrow> pk_name m = ''id''"
  by (cases m) (simp_all add: pk_name_def decl_defs)

lemma id_field: "m \<noteq> Form460Filing \<Longrightarrow> Field ''id'' AutoField False True \<in> set (fields m)"
  by (cases m) (simp_all add: decl_defs)

lemma model_init_id:
  "m \<noteq> Form460Filing \<Longrightarrow>
   model_init st m kw ''id'' =
     (case kw ''id'' of Some v \<Rightarrow> Some v | None \<Rightarrow> Some (IntV (next_id st m)))"
  using model_init_field[OF id_field, of m st kw] by simp

lemma parent_field_simps:
  "parent_field Form460Filing = None"
  "parent_field Form460FilingVersion = Some ''filing''"
  "m \<in> set current_items \<Longrightarrow> parent_field m = Some ''filing''"
  "m \<in> set version_items \<Longrightarrow> parent_field m = Some ''filing_version''"
  by (auto simp: parent_field_def decl_defs current_items_def version_items_def)

lemma model_cases:
  "m = Form460Filing \<or> m = Form460FilingVersion \<or> m \<in> set current_items \<or> m \<in> set version_items"
  by (cases m) (simp_all add: current_items_def version_items_def)

lemma filing_field_FilingVersion:
  "Field ''filing'' (ForeignKey Form460Filing SET_NULL False) True False
     \<in> set (fields Form460FilingVersion)"
  by (simp add: decl_defs)

lemma amend_id_field:
  "Field ''amend_id'' IntegerField False False \<in> set (fields Form460FilingVersion)"
  by (simp add: decl_defs)

lemma filing_field_current:
  "m \<in> set current_items \<Longrightarrow>
   Field ''filing'' (ForeignKey Form460Filing SET_NULL (m \<noteq> Form460ScheduleIItem)) True False
     \<in> set (fields m)"
  by (auto simp: decl_defs current_items_def)

lemma filing_version_field:
  "m \<in> set version_items \<Longrightarrow>
   Field ''filing_version'' (ForeignKey Form460FilingVersion SET_NULL True) True False
     \<in> set (fields m)"
  by (auto simp: decl_defs version_items_def)

lemma line_item_field:
  "m \<in> set current_items \<or> m \<in> set version_items \<Longrightarrow>
   Field ''line_item'' IntegerField False False \<in> set (fields m)"
  by (auto simp: decl_defs current_items_def version_items_def)

lemma model_init_parent: "parent_field m = Some p \<Longrightarrow> model_init st m kw p = kw p"
  using model_cases[of m]
  by (auto simp: parent_field_simps
      intro: model_init_plain[OF filing_field_FilingVersion]
             model_init_plain[OF filing_field_current]
             model_init_plain[OF filing_version_field])

lemma model_init_amend_id: "model_init st Form460FilingVersion kw ''amend_id'' = kw ''amend_id''"
  by (rule model_init_plain[OF amend_id_field]) simp_all

lemma model_init_line_item:
  "m \<in> set current_items \<or> m \<in> set version_items \<Longrightarrow>
   model_init st m kw ''line_item'' = kw ''line_item''"
  by (rule model_init_plain[OF line_item_field]) simp_all

lemma unique_together_simps:
  "unique_together Form460Filing = []"
  "unique_together Form460FilingVersion = [[''filing'', ''amend_id'']]"
  "m \<in> set current_items \<Longrightarrow> unique_together m = [[''filing'', ''line_item'']]"
  "m \<in> set version_items \<Longrightarrow> unique_together m = [[''filing_version'', ''line_item'']]"
  by (auto simp: current_items_def version_items_def)

lemma fk_violations_simps:
  "fk_violations st Form460Filing r = []"
  "fk_violations st Form460FilingVersion r = []"
  "fk_violations st Form460ScheduleIItem r = []"
  "m \<in> set current_items \<Longrightarrow> m \<noteq> Form460ScheduleIItem \<Longrightarrow>
   fk_violations st m r =
     (case r ''filing'' of
        None \<Rightarrow> []
      | Some v \<Rightarrow> if exists_pk st Form460Filing v then [] else [''filing''])"
  "m \<in> set version_items \<Longrightarrow>
   fk_violations st m r =
     (case r ''filing_version'' of
        None \<Rightarrow> []
      | Some v \<Rightarrow> if exists_pk st Form460FilingVersion v then [] else [''filing_version''])"
  by (auto simp: fk_violations_def decl_defs current_items_def version_items_def
      split: option.splits)

lemma not_null_columns_simps:
  "not_null_columns Form460Filing = [''from_date'', ''thru_date'', ''filing_id'', ''amendment_count'']"
  "not_null_columns Form460FilingVersion = [''from_date'', ''thru_date'', ''amend_id'']"
  "not_null_columns Form460ScheduleAItem = [''line_item'', ''amount'']"
  "not_null_columns Form460ScheduleAItemVersion = [''line_item'', ''amount'']"
  "not_null_columns Form460ScheduleCItem = [''line_item'', ''fair_market_value'']"
  "not_null_columns Form460ScheduleCItemVersion = [''line_item'', ''fair_market_value'']"
  "not_null_columns Form460ScheduleDItem = [''line_item'', ''amount'']"
  "not_null_columns Form460ScheduleDItemVersion = [''line_item'', ''amount'']"
  "not_null_columns Form460ScheduleEItem = [''line_item'', ''amount'']"
  "not_null_columns Form460ScheduleEItemVersion = [''line_item'', ''amount'']"
  "not_null_columns Form460ScheduleESubItem = [''line_item'', ''amount'']"
  "not_null_columns Form460ScheduleESubItemVersion = [''line_item'', ''amount'']"
  "not_null_columns Form460ScheduleGItem = [''line_item'', ''amount'']"
  "not_null_columns Form460ScheduleGItemVersion = [''line_item'', ''amount'']"
  "not_null_columns Form460ScheduleIItem = [''line_item'', ''amount'']"
  "not_null_columns Form460ScheduleIItemVersion = [''line_item'', ''amount'']"
  by (simp_all add: not_null_columns_def get_default_def decl_defs)

lemma required_simps:
  "required Form460Filing = [''from_date'', ''thru_date'', ''amendment_count'']"
  "required Form460FilingVersion = [''from_date'', ''thru_date'', ''amend_id'']"
  "required Form460ScheduleAItem = [''line_item'', ''amount'']"
  "required Form460ScheduleAItemVersion = [''line_item'', ''amount'']"
  "required Form460ScheduleCItem = [''line_item'', ''fair_market_value'']"
  "required Form460ScheduleCItemVersion = [''line_item'', ''fair_market_value'']"
  "required Form460ScheduleDItem = [''line_item'', ''amount'']"
  "required Form460ScheduleDItemVersion = [''line_item'', ''amount'']"
  "required Form460ScheduleEItem = [''line_item'', ''amount'']"
  "required Form460ScheduleEItemVersion = [''line_item'', ''amount'']"
  "required Form460ScheduleESubItem = [''line_item'', ''amount'']"
  "required Form460ScheduleESubItemVersion = [''line_item'', ''amount'']"
  "required Form460ScheduleGItem = [''line_item'', ''amount'']"
  "required Form460ScheduleGItemVersion = [''line_item'', ''amount'']"
  "required Form460ScheduleIItem = [''line_item'', ''amount'']"
  "required Form460ScheduleIItemVersion = [''line_item'', ''amount'']"
  by (simp_all add: required_def get_default_def decl_defs)

lemma not_null_columns_required:
  "not_null_columns Form460Filing = [''from_date'', ''thru_date'', ''filing_id'', ''amendment_count'']"
  "m \<noteq> Form460Filing \<Longrightarrow> not_null_columns m = required m"
  by (cases m; simp add: not_null_columns_simps required_simps)+

section \<open>Creation\<close>

lemma null_violations_init:
  "null_violations m (model_init st m kw) = filter (\<lambda>n. kw n = None) (not_null_columns m)"
proof -
  have "\<And>f. f \<in> set (fields m) \<Longrightarrow>
      (\<not> null f \<and> model_init st m kw (name f) = None) =
      (\<not> null f \<and> ftype f \<noteq> AutoField \<and> get_default f = None \<and> kw (name f) = None)"
    by (auto simp: model_init_field split: option.splits)
  then have "filter (\<lambda>f. \<not> null f \<and> model_init st m kw (name f) = None) (fields m) =
      filter (\<lambda>f. \<not> null f \<and> ftype f \<noteq> AutoField \<and> get_default f = None \<and>
                  kw (name f) = None) (fields m)"
    by (intro filter_cong) auto
  then show ?thesis
    by (simp add: null_violations_def not_null_columns_def filter_map o_def conj_ac)
qed

lemma create_failure_unchanged: "create st m kw = (Inl e, st') \<Longrightarrow> st' = st"
  by (auto simp: create_def Let_def split: list.splits)

lemma create_success:
  "create st m kw = (Inr pk, st') \<Longrightarrow>
   null_violations m (model_init st m kw) = [] \<and>
   unique_violations st m (model_init st m kw) = [] \<and>
   fk_violations st m (model_init st m kw) = [] \<and>
   st' = insert_row st m (model_init st m kw) \<and>
   pk = the (model_init st m kw (pk_name m))"
  by (auto simp: create_def Let_def split: list.splits)

lemma create_ok:
  "null_violations m (model_init st m kw) = [] \<Longrightarrow>
   unique_violations st m (model_init st m kw) = [] \<Longrightarrow>
   fk_violations st m (model_init st m kw) = [] \<Longrightarrow>
   create st m kw =
     (Inr (the (model_init st m kw (pk_name m))), insert_row st m (model_init st m kw))"
  by (simp add: create_def Let_def)

lemma create_not_null:
  "null_violations m (model_init st m kw) = n # ns \<Longrightarrow>
   create st m kw = (Inl (IntegrityError (NotNull n)), st)"
  by (simp add: create_def Let_def)

lemma create_unique:
  "null_violations m (model_init st m kw) = [] \<Longrightarrow>
   unique_violations st m (model_init st m kw) = u # us \<Longrightarrow>
   create st m kw = (Inl (IntegrityError (Unique u)), st)"
  by (simp add: create_def Let_def)

lemma create_foreign_key:
  "null_violations m (model_init st m kw) = [] \<Longrightarrow>
   unique_violations st m (model_init st m kw) = [] \<Longrightarrow>
   fk_violations st m (model_init st m kw) = n # ns \<Longrightarrow>
   create st m kw = (Inl (IntegrityError (ForeignKeyViolation n)), st)"
  by (simp add: create_def Let_def)

lemma create_not_null_iff:
  "(\<exists>n. fst (create st m kw) = Inl (IntegrityError (NotNull n))) =
   (null_violations m (model_init st m kw) \<noteq> [])"
  by (auto simp: create_def Let_def split: list.splits)


lemma tables_insert_row:
  "tables (insert_row st m r) m = tables st m @ [r]"
  "m' \<noteq> m \<Longrightarrow> tables (insert_row st m r) m' = tables st m'"
  by (simp_all add: insert_row_def)

lemma tables_empty_store: "tables empty_store m = []"
  by (simp add: empty_store_def)

section \<open>Fresh keys and absent parents\<close>

lemma fold_max_ge:
  "n \<le> fold (\<lambda>e n. case e ''id'' of Some (IntV i) \<Rightarrow> max i n | _ \<Rightarrow> n) rows (n::int)"
proof (induction rows arbitrary: n)
  case Nil
  show ?case by simp
next
  case (Cons e es)
  have "n \<le> (case e ''id'' of Some (IntV i) \<Rightarrow> max i n | _ \<Rightarrow> n)"
    by (simp split: option.splits val.splits)
  also have "\<dots> \<le> fold (\<lambda>e n. case e ''id'' of Some (IntV i) \<Rightarrow> max i n | _ \<Rightarrow> n) es
      (case e ''id'' of Some (IntV i) \<Rightarrow> max i n | _ \<Rightarrow> n)"
    by (rule Cons.IH)
  finally show ?case by simp
qed

lemma fold_max_member:
  "e \<in> set rows \<Longrightarrow> e ''id'' = Some (IntV i) \<Longrightarrow>
   i \<le> fold (\<lambda>e n. case e ''id'' of Some (IntV i) \<Rightarrow> max i n | _ \<Rightarrow> n) rows (n::int)"
proof (induction rows arbitrary: n)
  case Nil
  then show ?case by simp
next
  case (Cons x xs)
  show ?case
  proof (cases "e = x")
    case True
    have "i \<le> max i n" by simp
    also have "\<dots> \<le> fold (\<lambda>e n. case e ''id'' of Some (IntV i) \<Rightarrow> max i n | _ \<Rightarrow> n) xs (max i n)"
      by (rule fold_max_ge)
    finally show ?thesis using True Cons.prems(2) by simp
  next
    case False
    then have "e \<in> set xs" using Cons.prems(1) by simp
    then show ?thesis using Cons.IH Cons.prems(2) by simp
  qed
qed

lemma next_id_fresh: "e \<in> set (tables st m) \<Longrightarrow> e ''id'' \<noteq> Some (IntV (next_id st m))"
proof
  assume a: "e \<in> set (tables st m)" and b: "e ''id'' = Some (IntV (next_id st m))"
  have "next_id st m \<le> next_id st m - 1"
    using fold_max_member[OF a b, of "sequence st m"] by (simp add: next_id_def)
  then show False by simp
qed

lemma next_id_above_sequence: "sequence st m < next_id st m"
  using fold_max_ge[of "sequence st m" "tables st m"] by (simp add: next_id_def)

lemma conflicts_absent: "n \<in> set u \<Longrightarrow> r n = None \<Longrightarrow> \<not> conflicts u r e"
  by (auto simp: conflicts_def list_all_iff)

lemma parent_in_unique_together:
  "parent_field m = Some p \<Longrightarrow> u \<in> set (unique_together m) \<Longrightarrow> p \<in> set u"
  using model_cases[of m] by (auto simp: parent_field_simps unique_together_simps)

lemma parent_field_not_Filing: "parent_field m = Some p \<Longrightarrow> m \<noteq> Form460Filing"
  by (auto simp: parent_field_simps)

lemma fk_violations_orphan:
  "parent_field m = Some p \<Longrightarrow> r p = None \<Longrightarrow> fk_violations st m r = []"
  using model_cases[of m]
  by (cases "m = Form460ScheduleIItem") (auto simp: parent_field_simps fk_violations_simps)

lemma not_null_present:
  "list_all (\<lambda>n. kw n \<noteq> None) (not_null_columns m) \<Longrightarrow>
   null_violations m (model_init st m kw) = []"
  by (simp add: null_violations_init filter_empty_conv list_all_iff)

lemma required_present:
  "m \<noteq> Form460Filing \<Longrightarrow> list_all (\<lambda>n. kw n \<noteq> None) (required m) \<Longrightarrow>
   null_violations m (model_init st m kw) = []"
  by (simp add: not_null_present not_null_columns_required)

lemma required_present_Filing:
  "list_all (\<lambda>n. kw n \<noteq> None) (required Form460Filing) \<Longrightarrow> kw ''filing_id'' \<noteq> None \<Longrightarrow>
   null_violations Form460Filing (model_init st Form460Filing kw) = []"
  by (rule not_null_present) (simp add: not_null_columns_required required_simps)

lemma orphan_not_conflicting:
  assumes "parent_field m = Some p" and "kw p = None" and "u \<in> set (unique_together m)"
  shows "\<not> list_ex (conflicts u (model_init st m kw)) (tables st m)"
proof -
  have "model_init st m kw p = None" using assms(1,2) by (simp add: model_init_parent)
  then show ?thesis
    using parent_in_unique_together[OF assms(1,3)] conflicts_absent[of p u "model_init st m kw"]
    by (auto simp: list_ex_iff)
qed

lemma unique_violations_orphan:
  assumes "parent_field m = Some p" and "kw p = None" and "kw ''id'' = None"
  shows "unique_violations st m (model_init st m kw) = []"
proof -
  let ?r = "model_init st m kw"
  have m: "m \<noteq> Form460Filing" using assms(1) by (rule parent_field_not_Filing)
  have id: "?r ''id'' = Some (IntV (next_id st m))"
    using assms(3) by (simp add: model_init_id[OF m])
  have a: "\<not> list_ex (conflicts [''id''] ?r) (tables st m)"
    using next_id_fresh[of _ st m] by (auto simp: list_ex_iff conflicts_def id)
  show ?thesis
    using a orphan_not_conflicting[of m p kw _ st, OF assms(1,2)]
    by (auto simp: unique_violations_def unique_constraints_def pk_name_other[OF m]
        filter_empty_conv)
qed

lemma create_orphan:
  assumes "parent_field m = Some p" and "kw p = None" and "kw ''id'' = None"
    and "list_all (\<lambda>n. kw n \<noteq> None) (required m)"
  shows "create st m kw =
    (Inr (IntV (next_id st m)), insert_row st m (model_init st m kw))"
proof -
  have m: "m \<noteq> Form460Filing" using assms(1) by (rule parent_field_not_Filing)
  have "model_init st m kw p = None" using assms(1,2) by (simp add: model_init_parent)
  then have fk: "fk_violations st m (model_init st m kw) = []"
    using assms(1) by (rule fk_violations_orphan[rotated])
  show ?thesis
    using create_ok[OF required_present[OF m assms(4)] unique_violations_orphan[OF assms(1-3)] fk]
    by (simp add: pk_name_other[OF m] model_init_id[OF m] assms(3))
qed

lemma A_current: "Form460ScheduleAItem \<in> set current_items"
  by (simp add: current_items_def)

lemma orphan_item_simps:
  "orphan_item ''filing'' = None" "orphan_item ''id'' = None"
  "orphan_item ''line_item'' = Some (IntV 1)" "orphan_item ''amount'' = Some (DecV 250000)"
  by (simp_all add: orphan_item_def)

lemma orphan_item_required: "list_all (\<lambda>n. orphan_item n \<noteq> None) (required Form460ScheduleAItem)"
  by (simp add: required_simps orphan_item_simps)

lemma next_id_empty: "next_id empty_store m = 1"
  by (simp add: next_id_def empty_store_def)

lemma next_id_second:
  "tables st m = [r] \<Longrightarrow> sequence st m = 1 \<Longrightarrow> r ''id'' = Some (IntV 1) \<Longrightarrow> next_id st m = 2"
  by (simp add: next_id_def)

lemma first_row:
  assumes "m \<noteq> Form460Filing" and "kw ''id'' = None"
  shows "tables (insert_row empty_store m (model_init empty_store m kw)) m =
      [model_init empty_store m kw]"
    and "sequence (insert_row empty_store m (model_init empty_store m kw)) m = 1"
    and "model_init empty_store m kw ''id'' = Some (IntV 1)"
    and "next_id (insert_row empty_store m (model_init empty_store m kw)) m = 2"
proof -
  show id: "model_init empty_store m kw ''id'' = Some (IntV 1)"
    using assms by (simp add: model_init_id next_id_empty)
  show t: "tables (insert_row empty_store m (model_init empty_store m kw)) m =
      [model_init empty_store m kw]"
    by (simp add: tables_insert_row tables_empty_store)
  have "sequence empty_store m = 0" by (simp add: empty_store_def)
  then show s: "sequence (insert_row empty_store m (model_init empty_store m kw)) m = 1"
    by (simp add: insert_row_def id)
  show "next_id (insert_row empty_store m (model_init empty_store m kw)) m = 2"
    using next_id_second[OF t s id] .
qed

section \<open>Orphaned rows\<close>

lemma create_unique_reported:
  "fst (create st m kw) = Inl (IntegrityError (Unique u)) \<Longrightarrow>
   u \<in> set (unique_violations st m (model_init st m kw))"
  by (auto simp: create_def Let_def split: list.splits)

lemma orphan_never_duplicate:
  assumes "parent_field m = Some p" and "kw p = None" and "u \<in> set (unique_together m)"
  shows "fst (create st m kw) \<noteq> Inl (IntegrityError (Unique u))"
proof
  assume "fst (create st m kw) = Inl (IntegrityError (Unique u))"
  then have "u \<in> set (unique_violations st m (model_init st m kw))"
    by (rule create_unique_reported)
  then have "list_ex (conflicts u (model_init st m kw)) (tables st m)"
    by (simp add: unique_violations_def)
  then show False using orphan_not_conflicting[of m p kw u st, OF assms] by simp
qed

lemma orphan_row_field:
  "f \<in> set (fields m) \<Longrightarrow>
   orphan_row m (name f) =
     (if \<not> null f \<and> \<not> primary_key f \<and> get_default f = None
      then Some (sample (ftype f)) else None)"
  by (simp add: orphan_row_def find_field)

lemma orphan_row_required: "list_all (\<lambda>n. orphan_row m n \<noteq> None) (required m)"
  by (auto simp: required_def list_all_iff orphan_row_field)

lemma orphan_row_id: "m \<noteq> Form460Filing \<Longrightarrow> orphan_row m ''id'' = None"
  using orphan_row_field[OF id_field, of m] by simp

lemma orphan_row_parent: "parent_field m = Some p \<Longrightarrow> orphan_row m p = None"
  using model_cases[of m] orphan_row_field[OF filing_field_FilingVersion]
    orphan_row_field[OF filing_field_current, of m]
    orphan_row_field[OF filing_version_field, of m]
  by (auto simp: parent_field_simps)

lemma orphan_row_amend_id: "orphan_row Form460FilingVersion ''amend_id'' = Some (IntV 1)"
  using orphan_row_field[OF amend_id_field] by (simp add: get_default_def)

lemma orphan_row_line_item:
  "m \<in> set current_items \<or> m \<in> set version_items \<Longrightarrow>
   orphan_row m ''line_item'' = Some (IntV 1)"
  using orphan_row_field[OF line_item_field, of m] by (simp add: get_default_def)

lemma version_unique_together:
  "parent_field Form460FilingVersion = Some p \<Longrightarrow>
   unique_together Form460FilingVersion = [[p, ''amend_id'']]"
  by (simp add: parent_field_simps)

lemma item_unique_together:
  "m \<in> set current_items \<or> m \<in> set version_items \<Longrightarrow> parent_field m = Some p \<Longrightarrow>
   unique_together m = [[p, ''line_item'']]"
  by (auto simp: parent_field_simps unique_together_simps)

lemma two_orphans:
  assumes p: "parent_field m = Some p"
  shows "create empty_store m (orphan_row m) =
      (Inr (IntV 1), insert_row empty_store m (model_init empty_store m (orphan_row m)))"
    and "create (insert_row empty_store m (model_init empty_store m (orphan_row m))) m
        (orphan_row m) =
      (Inr (IntV 2),
       insert_row (insert_row empty_store m (model_init empty_store m (orphan_row m))) m
         (model_init (insert_row empty_store m (model_init empty_store m (orphan_row m))) m
            (orphan_row m)))"
proof -
  have m: "m \<noteq> Form460Filing" using p by (rule parent_field_not_Filing)
  note c = create_orphan[OF p orphan_row_parent[OF p] orphan_row_id[OF m] orphan_row_required]
  show "create empty_store m (orphan_row m) =
      (Inr (IntV 1), insert_row empty_store m (model_init empty_store m (orphan_row m)))"
    by (simp add: c next_id_empty)
  show "create (insert_row empty_store m (model_init empty_store m (orphan_row m))) m
        (orphan_row m) =
      (Inr (IntV 2),
       insert_row (insert_row empty_store m (model_init empty_store m (orphan_row m))) m
         (model_init (insert_row empty_store m (model_init empty_store m (orphan_row m))) m
            (orphan_row m)))"
    by (simp add: c first_row(4)[of m "orphan_row m", OF m orphan_row_id[OF m]])
qed

lemma two_orphans_columns:
  assumes p: "parent_field m = Some p" and u: "u \<in> set (unique_together m)"
  shows "map (columns u)
      (tables (snd (create (snd (create empty_store m (orphan_row m))) m (orphan_row m))) m) =
    [[None, Some (IntV 1)], [None, Some (IntV 1)]]"
proof -
  have par: "model_init st m (orphan_row m) p = None" for st
    using p by (simp add: model_init_parent orphan_row_parent)
  consider "m = Form460FilingVersion" | "m \<in> set current_items \<or> m \<in> set version_items"
    using model_cases[of m] p by (auto simp: parent_field_simps)
  then show ?thesis
  proof cases
    case 1
    then have "u = [p, ''amend_id'']" using u version_unique_together p by simp
    moreover have "model_init st m (orphan_row m) ''amend_id'' = Some (IntV 1)" for st
      using 1 by (simp add: model_init_amend_id orphan_row_amend_id)
    ultimately show ?thesis
      using par by (simp add: two_orphans[OF p] tables_insert_row tables_empty_store
          columns_def)
  next
    case 2
    then have "u = [p, ''line_item'']" using u item_unique_together[OF 2 p] by simp
    moreover have "model_init st m (orphan_row m) ''line_item'' = Some (IntV 1)" for st
      using 2 by (simp add: model_init_line_item orphan_row_line_item)
    ultimately show ?thesis
      using par by (simp add: two_orphans[OF p] tables_insert_row tables_empty_store
          columns_def)
  qed
qed

text \<open>
  C9. The (parent, line_item) and (filing, amend_id) uniqueness only binds rows whose
  parent reference is present. In any store, a creation whose parent reference is absent
  is never refused for that uniqueness, whatever rows the table holds. And in every
  version and item table two orphaned rows with the same line item (amendment index)
  coexist: from the empty store, creating twice the row that has no parent and 1 in
  every required integer column succeeds both times, with ids 1 and 2, and the table then
  holds two rows with absent parent and the same line item.
\<close>

theorem orphans_are_unconstrained:
  assumes "parent_field m = Some p"
  shows "(kw p = None \<longrightarrow>
            list_all (\<lambda>u. fst (create st m kw) \<noteq> Inl (IntegrityError (Unique u)))
              (unique_together m)) \<and>
         fst (create empty_store m (orphan_row m)) = Inr (IntV 1) \<and>
         fst (create (snd (create empty_store m (orphan_row m))) m (orphan_row m)) =
           Inr (IntV 2) \<and>
         list_all
           (\<lambda>u. map (columns u)
                  (tables (snd (create (snd (create empty_store m (orphan_row m))) m
                                  (orphan_row m))) m) =
                [[None, Some (IntV 1)], [None, Some (IntV 1)]])
           (unique_together m) \<and>
         orphan_row m p = None"
proof (intro conjI impI)
  assume "kw p = None"
  then show "list_all (\<lambda>u. fst (create st m kw) \<noteq> Inl (IntegrityError (Unique u)))
      (unique_together m)"
    using orphan_never_duplicate[OF assms] by (simp add: list_all_iff)
next
  show "fst (create empty_store m (orphan_row m)) = Inr (IntV 1)"
    by (simp add: two_orphans[OF assms])
  show "fst (create (snd (create empty_store m (orphan_row m))) m (orphan_row m)) =
      Inr (IntV 2)"
    by (simp add: two_orphans[OF assms])
  show "list_all
      (\<lambda>u. map (columns u)
             (tables (snd (create (snd (create empty_store m (orphan_row m))) m
                             (orphan_row m))) m) =
           [[None, Some (IntV 1)], [None, Some (IntV 1)]])
      (unique_together m)"
    using two_orphans_columns[OF assms] by (simp add: list_all_iff)
  show "orphan_row m p = None" using assms by (rule orphan_row_parent)
qed

theorem orphans_are_unconstrained_witness:
  "fst (create (snd (create empty_store Form460ScheduleAItem orphan_item))
          Form460ScheduleAItem orphan_item) \<noteq>
     Inl (IntegrityError (Unique [''filing'', ''line_item''])) \<and>
   map (columns [''filing'', ''line_item''])
     (tables (snd (create (snd (create empty_store Form460ScheduleAItem
                                  (orphan_row Form460ScheduleAItem)))
                     Form460ScheduleAItem (orphan_row Form460ScheduleAItem)))
        Form460ScheduleAItem) =
   [[None, Some (IntV 1)], [None, Some (IntV 1)]]"
proof -
  have p: "parent_field Form460ScheduleAItem = Some ''filing''"
    by (simp add: parent_field_simps A_current)
  have u: "unique_together Form460ScheduleAItem = [[''filing'', ''line_item'']]"
    by simp
  show ?thesis
    using orphans_are_unconstrained[OF p,
        of orphan_item "snd (create empty_store Form460ScheduleAItem orphan_item)"]
    by (simp add: u orphan_item_simps)
qed

section \<open>Required fields\<close>

lemma partial_filing_simps:
  "partial_filing ''filing_id'' = Some (IntV 1001)"
  "partial_filing ''from_date'' = Some (DateV 2020 1 1)"
  "partial_filing ''thru_date'' = Some (DateV 2020 6 30)"
  "partial_filing ''amendment_count'' = None"
  by (simp_all add: partial_filing_def)

text \<open>
  C7, as the claim states it, fails: the claim lists the filing identifier, the amendment
  index, both period bounds, the line item and the amount, but \<^verbatim>\<open>amendment_count\<close> is
  declared without \<^verbatim>\<open>null=True\<close> as well. A filing that supplies its identifier and both
  period bounds is rejected for the missing amendment count.
\<close>

theorem listed_fields_counterexample:
  "list_all (\<lambda>n. partial_filing n \<noteq> None) [''filing_id'', ''from_date'', ''thru_date''] \<and>
   create empty_store Form460Filing partial_filing =
     (Inl (IntegrityError (NotNull ''amendment_count'')), empty_store)"
proof
  show "list_all (\<lambda>n. partial_filing n \<noteq> None) [''filing_id'', ''from_date'', ''thru_date'']"
    by (simp add: partial_filing_simps)
  show "create empty_store Form460Filing partial_filing =
      (Inl (IntegrityError (NotNull ''amendment_count'')), empty_store)"
    by (rule create_not_null)
      (simp add: null_violations_init not_null_columns_simps partial_filing_simps)
qed

text \<open>
  C7, amended. The required fields are both period bounds and the amendment count of a
  filing, both period bounds and the amendment index of a version, and the line item and
  the amount (on Schedule C, the fair market value) of an item. An insertion that omits
  one of them is rejected with a NOT NULL violation that names an omitted column, and the
  store stays as it was. An insertion that supplies all of them, and the filing
  identifier when the row is a filing, is never rejected for a missing field.
\<close>

theorem missing_required_field_rejected:
  "(list_ex (\<lambda>n. kw n = None) (required m) \<longrightarrow>
      (\<exists>n. kw n = None \<and> create st m kw = (Inl (IntegrityError (NotNull n)), st))) \<and>
   (list_all (\<lambda>n. kw n \<noteq> None) (required m) \<and>
    (m = Form460Filing \<longrightarrow> kw ''filing_id'' \<noteq> None) \<longrightarrow>
      (\<forall>n. fst (create st m kw) \<noteq> Inl (IntegrityError (NotNull n)))) \<and>
   map required all_models =
     [[''from_date'', ''thru_date'', ''amendment_count''],
      [''from_date'', ''thru_date'', ''amend_id''],
      [''line_item'', ''amount''], [''line_item'', ''amount''],
      [''line_item'', ''fair_market_value''], [''line_item'', ''fair_market_value''],
      [''line_item'', ''amount''], [''line_item'', ''amount''],
      [''line_item'', ''amount''], [''line_item'', ''amount''],
      [''line_item'', ''amount''], [''line_item'', ''amount''],
      [''line_item'', ''amount''], [''line_item'', ''amount''],
      [''line_item'', ''amount''], [''line_item'', ''amount'']]"
proof (intro conjI impI)
  assume "list_ex (\<lambda>n. kw n = None) (required m)"
  then have "list_ex (\<lambda>n. kw n = None) (not_null_columns m)"
    by (cases "m = Form460Filing")
      (auto simp: not_null_columns_required required_simps)
  then have "filter (\<lambda>n. kw n = None) (not_null_columns m) \<noteq> []"
    by (simp add: filter_empty_conv list_ex_iff)
  then obtain n ns where ns: "filter (\<lambda>n. kw n = None) (not_null_columns m) = n # ns"
    by (cases "filter (\<lambda>n. kw n = None) (not_null_columns m)") auto
  then have "n \<in> set (filter (\<lambda>n. kw n = None) (not_null_columns m))" by simp
  then have "kw n = None" by simp
  moreover have "create st m kw = (Inl (IntegrityError (NotNull n)), st)"
    using ns by (intro create_not_null) (simp add: null_violations_init)
  ultimately show "\<exists>n. kw n = None \<and>
      create st m kw = (Inl (IntegrityError (NotNull n)), st)"
    by blast
next
  assume a: "list_all (\<lambda>n. kw n \<noteq> None) (required m) \<and>
    (m = Form460Filing \<longrightarrow> kw ''filing_id'' \<noteq> None)"
  have "null_violations m (model_init st m kw) = []"
  proof (cases "m = Form460Filing")
    case True
    then show ?thesis using a required_present_Filing[of kw st] by simp
  next
    case False
    then show ?thesis using a required_present[of m kw st] by simp
  qed
  then show "\<forall>n. fst (create st m kw) \<noteq> Inl (IntegrityError (NotNull n))"
    using create_not_null_iff[of st m kw] by auto
next
  show "map required all_models =
     [[''from_date'', ''thru_date'', ''amendment_count''],
      [''from_date'', ''thru_date'', ''amend_id''],
      [''line_item'', ''amount''], [''line_item'', ''amount''],
      [''line_item'', ''fair_market_value''], [''line_item'', ''fair_market_value''],
      [''line_item'', ''amount''], [''line_item'', ''amount''],
      [''line_item'', ''amount''], [''line_item'', ''amount''],
      [''line_item'', ''amount''], [''line_item'', ''amount''],
      [''line_item'', ''amount''], [''line_item'', ''amount''],
      [''line_item'', ''amount''], [''line_item'', ''amount'']]"
    by (simp add: all_models_def required_simps)
qed

lemma bare_filing_simps:
  "bare_filing ''filing_id'' = Some (IntV 1001)"
  "bare_filing ''amendment_count'' = Some (IntV 0)"
  "bare_filing ''from_date'' = Some (DateV 2020 1 1)"
  "bare_filing ''thru_date'' = Some (DateV 2020 6 30)"
  by (simp_all add: bare_filing_def)

theorem missing_required_field_rejected_witness:
  "create empty_store Form460ScheduleAItem [''line_item'' \<mapsto> IntV 1] =
     (Inl (IntegrityError (NotNull ''amount'')), empty_store) \<and>
   fst (create empty_store Form460Filing bare_filing) \<noteq>
     Inl (IntegrityError (NotNull ''amendment_count''))"
proof
  have "list_ex (\<lambda>n. [''line_item'' \<mapsto> IntV 1] n = None) (required Form460ScheduleAItem)"
    by (simp add: required_simps)
  then have "\<exists>n. [''line_item'' \<mapsto> IntV 1] n = None \<and>
      create empty_store Form460ScheduleAItem [''line_item'' \<mapsto> IntV 1] =
        (Inl (IntegrityError (NotNull n)), empty_store)"
    using missing_required_field_rejected
      [of "[''line_item'' \<mapsto> IntV 1]" Form460ScheduleAItem empty_store]
    by blast
  then obtain n where n: "[''line_item'' \<mapsto> IntV 1] n = None"
    "create empty_store Form460ScheduleAItem [''line_item'' \<mapsto> IntV 1] =
        (Inl (IntegrityError (NotNull n)), empty_store)"
    by blast
  from n(2) have "n \<in> set (not_null_columns Form460ScheduleAItem)"
    using create_not_null_iff[of empty_store Form460ScheduleAItem "[''line_item'' \<mapsto> IntV 1]"]
    by (auto simp: create_def Let_def null_violations_init not_null_columns_simps
        split: list.splits if_splits)
  then have "n = ''amount''" using n(1) by (auto simp: not_null_columns_simps)
  then show "create empty_store Form460ScheduleAItem [''line_item'' \<mapsto> IntV 1] =
      (Inl (IntegrityError (NotNull ''amount'')), empty_store)"
    using n(2) by simp
next
  have "list_all (\<lambda>n. bare_filing n \<noteq> None) (required Form460Filing)"
    by (simp add: required_simps bare_filing_simps)
  then show "fst (create empty_store Form460Filing bare_filing) \<noteq>
      Inl (IntegrityError (NotNull ''amendment_count''))"
    using missing_required_field_rejected[of bare_filing Form460Filing empty_store]
    by (simp add: bare_filing_simps)
qed

section \<open>Parent references and the foreign-key constraint\<close>

lemma version_1001_simps:
  "version_1001 a ''filing'' = Some (IntV 1001)" "version_1001 a ''amend_id'' = Some (IntV a)"
  "version_1001 a ''id'' = None"
  "version_1001 a ''from_date'' = Some (DateV 2020 1 1)"
  "version_1001 a ''thru_date'' = Some (DateV 2020 6 30)"
  by (simp_all add: version_1001_def)

lemma version_1001_required:
  "list_all (\<lambda>n. version_1001 a n \<noteq> None) (required Form460FilingVersion)"
  by (simp add: required_simps version_1001_simps)

lemma dangling_item_simps:
  "dangling_item ''filing'' = Some (IntV 9999)" "dangling_item ''id'' = None"
  "dangling_item ''line_item'' = Some (IntV 1)" "dangling_item ''amount'' = Some (DecV 250000)"
  by (simp_all add: dangling_item_def)

lemma unique_violations_empty: "unique_violations empty_store m r = []"
  by (simp add: unique_violations_def empty_store_def)

lemma exists_pk_empty: "\<not> exists_pk empty_store m v"
  by (simp add: exists_pk_def empty_store_def)

text \<open>
  C5. \<^verbatim>\<open>Form460ScheduleAItem.filing\<close> is declared without \<^verbatim>\<open>db_constraint=False\<close>, so the
  foreign-key constraint is kept: an item that refers to filing 9999 is rejected by the
  empty store, which stays empty. \<^verbatim>\<open>Form460FilingVersion.filing\<close> is declared with
  \<^verbatim>\<open>db_constraint=False\<close>: a version that refers to filing 1001 is inserted in the empty
  store with that reference stored.
\<close>

theorem enforced_reference_rejects_dangling:
  "create empty_store Form460ScheduleAItem dangling_item =
     (Inl (IntegrityError (ForeignKeyViolation ''filing'')), empty_store) \<and>
   fst (create empty_store Form460FilingVersion (version_1001 0)) = Inr (IntV 1) \<and>
   map (columns [''filing'', ''amend_id'']) (tables store_dangling Form460FilingVersion) =
     [[Some (IntV 1001), Some (IntV 0)]]"
proof (intro conjI)
  show "create empty_store Form460ScheduleAItem dangling_item =
     (Inl (IntegrityError (ForeignKeyViolation ''filing'')), empty_store)"
  proof (rule create_foreign_key)
    show "null_violations Form460ScheduleAItem
        (model_init empty_store Form460ScheduleAItem dangling_item) = []"
      by (simp add: null_violations_init not_null_columns_simps dangling_item_simps)
    show "unique_violations empty_store Form460ScheduleAItem
        (model_init empty_store Form460ScheduleAItem dangling_item) = []"
      by (rule unique_violations_empty)
    have "model_init empty_store Form460ScheduleAItem dangling_item ''filing'' =
        Some (IntV 9999)"
      by (simp add: model_init_parent parent_field_simps A_current dangling_item_simps)
    then show "fk_violations empty_store Form460ScheduleAItem
        (model_init empty_store Form460ScheduleAItem dangling_item) = ''filing'' # []"
      by (simp add: fk_violations_simps A_current exists_pk_empty)
  qed
next
  have c: "create empty_store Form460FilingVersion (version_1001 0) =
      (Inr (IntV 1), insert_row empty_store Form460FilingVersion
         (model_init empty_store Form460FilingVersion (version_1001 0)))"
    using create_ok[of Form460FilingVersion empty_store "version_1001 0",
        OF required_present[OF _ version_1001_required] unique_violations_empty]
    by (simp add: fk_violations_simps pk_name_other model_init_id next_id_empty
        version_1001_simps)
  show "fst (create empty_store Form460FilingVersion (version_1001 0)) = Inr (IntV 1)"
    by (simp add: c)
  have "model_init empty_store Form460FilingVersion (version_1001 0) ''filing'' =
      Some (IntV 1001)"
    by (simp add: model_init_parent parent_field_simps version_1001_simps)
  then show "map (columns [''filing'', ''amend_id''])
      (tables store_dangling Form460FilingVersion) = [[Some (IntV 1001), Some (IntV 0)]]"
    by (simp add: store_dangling_def c tables_insert_row tables_empty_store columns_def
        model_init_amend_id version_1001_simps)
qed

section \<open>Composite uniqueness\<close>

lemma conflicts_sym: "conflicts u r e \<Longrightarrow> conflicts u e r"
  by (auto simp: conflicts_def list_all_iff)

lemma create_snd_cases:
  "snd (create st m kw) = st \<or>
   (unique_violations st m (model_init st m kw) = [] \<and>
    snd (create st m kw) = insert_row st m (model_init st m kw))"
  by (auto simp: create_def Let_def split: list.splits)

lemma create_fst_cases:
  "(\<exists>c. fst (create st m kw) = Inl (IntegrityError c)) \<or>
   unique_violations st m (model_init st m kw) = []"
  by (auto simp: create_def Let_def split: list.splits)

lemma duplicate_rejected:
  assumes m: "m \<noteq> Form460Filing" and e: "e \<in> set (tables st m)"
    and u: "unique_together m = [u]" and c: "conflicts u (model_init st m kw) e"
  shows "snd (create st m kw) = st"
    and "\<exists>c. fst (create st m kw) = Inl (IntegrityError c)"
    and "list_all (\<lambda>n. kw n \<noteq> None) (required m) \<Longrightarrow> kw ''id'' = None \<Longrightarrow>
         create st m kw = (Inl (IntegrityError (Unique u)), st)"
proof -
  let ?r = "model_init st m kw"
  have ex: "list_ex (conflicts u ?r) (tables st m)"
    using e c by (auto simp: list_ex_iff)
  then have ne: "unique_violations st m ?r \<noteq> []"
    by (simp add: unique_violations_def unique_constraints_def u)
  show "snd (create st m kw) = st"
    using create_snd_cases[of st m kw] ne by auto
  show "\<exists>c. fst (create st m kw) = Inl (IntegrityError c)"
    using create_fst_cases[of st m kw] ne by auto
  assume req: "list_all (\<lambda>n. kw n \<noteq> None) (required m)" and id: "kw ''id'' = None"
  have "?r ''id'' = Some (IntV (next_id st m))"
    using id by (simp add: model_init_id[OF m])
  then have "\<not> list_ex (conflicts [''id''] ?r) (tables st m)"
    using next_id_fresh[of _ st m] by (auto simp: list_ex_iff conflicts_def)
  then have "unique_violations st m ?r = [u]"
    using ex by (simp add: unique_violations_def unique_constraints_def u pk_name_other[OF m])
  then show "create st m kw = (Inl (IntegrityError (Unique u)), st)"
    using create_unique[OF required_present[OF m req]] by simp
qed

lemma created_row_stored:
  "create st m kw = (Inr pk, st') \<Longrightarrow>
   st' = insert_row st m (model_init st m kw) \<and> model_init st m kw \<in> set (tables st' m)"
  by (auto dest: create_success simp: tables_insert_row)

lemma orphan_version_simps:
  "orphan_version ''filing'' = None" "orphan_version ''id'' = None"
  "orphan_version ''amend_id'' = Some (IntV 0)"
  by (simp_all add: orphan_version_def)

lemma orphan_version_required:
  "list_all (\<lambda>n. orphan_version n \<noteq> None) (required Form460FilingVersion)"
  by (simp add: required_simps orphan_version_def)

text \<open>
  C2, as the claim states it, fails: two versions with the same absent filing and the
  same \<^verbatim>\<open>amend_id\<close> 0 are both inserted.
\<close>

theorem duplicate_version_counterexample:
  "fst (create (snd (create empty_store Form460FilingVersion orphan_version))
          Form460FilingVersion orphan_version) = Inr (IntV 2) \<and>
   map (columns [''filing'', ''amend_id''])
     (tables (snd (create (snd (create empty_store Form460FilingVersion orphan_version))
             Form460FilingVersion orphan_version)) Form460FilingVersion) =
   [[None, Some (IntV 0)], [None, Some (IntV 0)]]"
proof -
  have p: "parent_field Form460FilingVersion = Some ''filing''"
    by (simp add: parent_field_simps)
  note t = create_orphan[OF p orphan_version_simps(1,2) orphan_version_required]
  note f = first_row[of Form460FilingVersion orphan_version, OF _ orphan_version_simps(2)]
  show ?thesis
    by (simp add: t f tables_insert_row tables_empty_store model_init_parent[OF p]
        model_init_amend_id orphan_version_simps columns_def)
qed

text \<open>
  C2, amended. For every pair of insertions of version rows with the same present
  (non-null) filing and the same \<^verbatim>\<open>amend_id\<close>, the first of which succeeds, the second
  fails with an integrity error and leaves the store unchanged; when it supplies its
  required fields and no explicit \<^verbatim>\<open>id\<close>, the error is the uniqueness violation of
  (filing, amend_id).
\<close>

theorem duplicate_version_rejected:
  assumes "create st Form460FilingVersion v1 = (Inr pk, st1)"
    and "v1 ''filing'' = Some f" and "v1 ''amend_id'' = Some a"
    and "v2 ''filing'' = Some f" and "v2 ''amend_id'' = Some a"
  shows "snd (create st1 Form460FilingVersion v2) = st1 \<and>
         (\<exists>c. fst (create st1 Form460FilingVersion v2) = Inl (IntegrityError c)) \<and>
         (v2 ''from_date'' \<noteq> None \<and> v2 ''thru_date'' \<noteq> None \<and> v2 ''id'' = None \<longrightarrow>
            create st1 Form460FilingVersion v2 =
              (Inl (IntegrityError (Unique [''filing'', ''amend_id''])), st1))"
proof -
  let ?m = Form460FilingVersion
  let ?r1 = "model_init st ?m v1"
  have p: "parent_field ?m = Some ''filing''" by (simp add: parent_field_simps)
  have e: "?r1 \<in> set (tables st1 ?m)"
    using created_row_stored[OF assms(1)] by blast
  have "conflicts [''filing'', ''amend_id''] (model_init st1 ?m v2) ?r1"
    using assms(2-5) by (simp add: conflicts_def model_init_parent[OF p] model_init_amend_id)
  note d = duplicate_rejected[OF _ e unique_together_simps(2) this]
  have "v2 ''from_date'' \<noteq> None \<Longrightarrow> v2 ''thru_date'' \<noteq> None \<Longrightarrow>
      list_all (\<lambda>n. v2 n \<noteq> None) (required ?m)"
    using assms(5) by (simp add: required_simps)
  then show ?thesis using d by auto
qed

theorem duplicate_version_rejected_witness:
  "create empty_store Form460FilingVersion (version_1001 0) =
     (Inr (IntV 1),
      insert_row empty_store Form460FilingVersion
        (model_init empty_store Form460FilingVersion (version_1001 0))) \<and>
   create (insert_row empty_store Form460FilingVersion
             (model_init empty_store Form460FilingVersion (version_1001 0)))
     Form460FilingVersion (version_1001 0) =
     (Inl (IntegrityError (Unique [''filing'', ''amend_id''])),
      insert_row empty_store Form460FilingVersion
        (model_init empty_store Form460FilingVersion (version_1001 0)))"
proof -
  let ?m = Form460FilingVersion
  have c: "create empty_store ?m (version_1001 0) =
     (Inr (IntV 1), insert_row empty_store ?m (model_init empty_store ?m (version_1001 0)))"
    using create_ok[of ?m empty_store "version_1001 0",
        OF required_present[OF _ version_1001_required] unique_violations_empty]
    by (simp add: fk_violations_simps pk_name_other model_init_id next_id_empty
        version_1001_simps)
  have "version_1001 0 ''from_date'' \<noteq> None \<and> version_1001 0 ''thru_date'' \<noteq> None \<and>
      version_1001 0 ''id'' = None"
    by (simp add: version_1001_simps)
  then show ?thesis
    using duplicate_version_rejected[OF c version_1001_simps(1,2) version_1001_simps(1,2)] c
    by blast
qed

section \<open>At most one row per parent and line item\<close>

lemma no_duplicates_append:
  "no_duplicates u (es @ [r]) = (no_duplicates u es \<and> \<not> list_ex (\<lambda>e. conflicts u e r) es)"
  by (induction es) (auto simp: list_ex_iff)

lemma no_duplicates_filter: "no_duplicates u es \<Longrightarrow> no_duplicates u (filter P es)"
  by (induction es) (auto simp: list_ex_iff)

lemma no_duplicates_map:
  assumes g: "\<And>e n. g e n = e n \<or> g e n = None"
  shows "no_duplicates u es \<Longrightarrow> no_duplicates u (map g es)"
proof (induction es)
  case Nil
  show ?case by simp
next
  case (Cons x xs)
  have "\<not> conflicts u (g x) (g e)" if e: "e \<in> set xs" for e
  proof
    assume c: "conflicts u (g x) (g e)"
    have "conflicts u x e"
      unfolding conflicts_def list_all_iff
    proof
      fix n assume n: "n \<in> set u"
      then have 1: "g x n \<noteq> None" and 2: "g e n = g x n"
        using c by (auto simp: conflicts_def list_all_iff)
      have "g x n = x n" using g[of x n] 1 by auto
      moreover have "g e n = e n" using g[of e n] 1 2 by auto
      ultimately show "x n \<noteq> None \<and> e n = x n" using 1 2 by simp
    qed
    then show False using Cons.prems e by (auto simp: list_ex_iff)
  qed
  then show ?case using Cons by (auto simp: list_ex_iff)
qed

lemma on_delete_row_cases: "on_delete_row m pk m' e n = e n \<or> on_delete_row m pk m' e n = None"
proof -
  have "\<And>e. fold (\<lambda>(n, od) e. if od = SET_NULL \<and> e n = Some pk then e(n := None) else e) fs e n
        = e n \<or>
      fold (\<lambda>(n, od) e. if od = SET_NULL \<and> e n = Some pk then e(n := None) else e) fs e n
        = None" for fs
  proof (induction fs)
    case Nil
    show ?case by simp
  next
    case (Cons f fs)
    obtain k od where f: "f = (k, od)" by (cases f)
    show ?case using Cons[of "if od = SET_NULL \<and> e k = Some pk then e(k := None) else e"]
      by (auto simp: f split: if_splits)
  qed
  then show ?thesis by (simp add: on_delete_row_def)
qed

lemma delete_snd_cases:
  "snd (delete st m pk) = st \<or>
   snd (delete st m pk) =
     Store
       (\<lambda>m'. let rows = map (on_delete_row m pk m') (tables st m') in
              if m' = m then filter (\<lambda>e. e (pk_name m) \<noteq> Some pk) rows else rows)
       (sequence st)"
  by (simp add: delete_def)

lemma unique_together_holds_create:
  assumes "unique_together_holds st m"
  shows "unique_together_holds (snd (create st m' kw)) m"
proof -
  let ?r = "model_init st m' kw"
  consider "snd (create st m' kw) = st"
    | "unique_violations st m' ?r = []" "snd (create st m' kw) = insert_row st m' ?r"
    using create_snd_cases[of st m' kw] by blast
  then show ?thesis
  proof cases
    case 1
    then show ?thesis using assms by simp
  next
    case 2
    show ?thesis
    proof (cases "m = m'")
      case False
      then show ?thesis using assms 2 by (simp add: unique_together_holds_def tables_insert_row)
    next
      case True
      have "\<not> list_ex (\<lambda>e. conflicts u e ?r) (tables st m')" if u: "u \<in> set (unique_together m')" for u
      proof -
        have "\<not> list_ex (conflicts u ?r) (tables st m')"
          using 2(1) u by (auto simp: unique_violations_def unique_constraints_def
              filter_empty_conv split: if_splits)
        then show ?thesis using conflicts_sym[of u _ ?r] by (auto simp: list_ex_iff)
      qed
      then show ?thesis
        using assms 2 True
        by (auto simp: unique_together_holds_def list_all_iff no_duplicates_append
            tables_insert_row)
    qed
  qed
qed

lemma unique_together_holds_delete:
  assumes "unique_together_holds st m"
  shows "unique_together_holds (snd (delete st m' pk)) m"
proof -
  have "no_duplicates u (map (on_delete_row m' pk m) (tables st m))"
    if "u \<in> set (unique_together m)" for u
    using assms that on_delete_row_cases
    by (intro no_duplicates_map) (auto simp: unique_together_holds_def list_all_iff)
  then show ?thesis
    using delete_snd_cases[of st m' pk] assms
    by (auto simp: unique_together_holds_def list_all_iff Let_def no_duplicates_filter)
qed

lemma reachable_unique_together: "reachable st \<Longrightarrow> unique_together_holds st m"
proof (induction rule: reachable.induct)
  case reachable_empty
  show ?case by (simp add: unique_together_holds_def tables_empty_store list_all_iff)
next
  case (reachable_create st m' kwargs)
  from reachable_create.IH show ?case by (rule unique_together_holds_create)
next
  case (reachable_delete st m' pk)
  from reachable_delete.IH show ?case by (rule unique_together_holds_delete)
qed

lemma no_duplicates_at_most_one:
  "no_duplicates [p, q] es \<Longrightarrow>
   length (filter (\<lambda>e. e p = Some v \<and> e q = Some l) es) \<le> 1"
proof (induction es)
  case Nil
  show ?case by simp
next
  case (Cons x xs)
  show ?case
  proof (cases "x p = Some v \<and> x q = Some l")
    case False
    then show ?thesis using Cons by auto
  next
    case True
    have "filter (\<lambda>e. e p = Some v \<and> e q = Some l) xs = []"
      using Cons.prems True by (auto simp: filter_empty_conv list_ex_iff conflicts_def)
    then show ?thesis using True by simp
  qed
qed

lemma item_not_Filing:
  "m \<in> set current_items \<or> m \<in> set version_items \<Longrightarrow> m \<noteq> Form460Filing"
  by (auto simp: current_items_def version_items_def)

text \<open>
  C3, as the claim states it, fails: two Schedule A rows with the same absent filing and
  the same line item 1 are both in the table.
\<close>

theorem duplicate_item_counterexample:
  "map (columns [''filing'', ''line_item''])
     (filter_rows
        (snd (create (snd (create empty_store Form460ScheduleAItem orphan_item))
                Form460ScheduleAItem orphan_item))
        Form460ScheduleAItem [(''line_item'', IntV 1)]) =
   [[None, Some (IntV 1)], [None, Some (IntV 1)]]"
proof -
  have p: "parent_field Form460ScheduleAItem = Some ''filing''"
    by (simp add: parent_field_simps A_current)
  note t = create_orphan[OF p orphan_item_simps(1,2) orphan_item_required]
  show ?thesis
    by (simp add: t filter_rows_def tables_insert_row tables_empty_store model_init_line_item A_current
        model_init_parent[OF p] orphan_item_simps columns_def)
qed

text \<open>
  C3, amended. In every schedule family and tier, in every store built by creations and
  deletions, at most one row exists per present (non-null) parent and line item; and
  when a row with a present parent and a line item has been inserted, inserting a second
  row with the same parent and line item fails with an integrity error and leaves the
  store unchanged, the error being the uniqueness violation of (parent, line_item) when
  the row supplies its required fields and no explicit \<^verbatim>\<open>id\<close>.
\<close>

theorem duplicate_item_rejected:
  assumes "m \<in> set current_items \<or> m \<in> set version_items" and "parent_field m = Some p"
  shows "(reachable s \<longrightarrow> length (filter_rows s m [(p, v), (''line_item'', l)]) \<le> 1) \<and>
         (create st m r = (Inr pk, st') \<and> r p = Some v \<and> r ''line_item'' = Some l \<and>
          r' p = Some v \<and> r' ''line_item'' = Some l \<longrightarrow>
            snd (create st' m r') = st' \<and>
            (\<exists>c. fst (create st' m r') = Inl (IntegrityError c)) \<and>
            (list_all (\<lambda>n. r' n \<noteq> None) (required m) \<and> r' ''id'' = None \<longrightarrow>
               create st' m r' = (Inl (IntegrityError (Unique [p, ''line_item''])), st')))"
proof (intro conjI impI)
  assume "reachable s"
  then have "unique_together_holds s m" by (rule reachable_unique_together)
  then have "no_duplicates [p, ''line_item''] (tables s m)"
    by (simp add: unique_together_holds_def item_unique_together[OF assms])
  then show "length (filter_rows s m [(p, v), (''line_item'', l)]) \<le> 1"
    using no_duplicates_at_most_one[of p "''line_item''" "tables s m" v l]
    by (simp add: filter_rows_def)
next
  assume a: "create st m r = (Inr pk, st') \<and> r p = Some v \<and> r ''line_item'' = Some l \<and>
      r' p = Some v \<and> r' ''line_item'' = Some l"
  have e: "model_init st m r \<in> set (tables st' m)"
    using created_row_stored[of st m r pk st'] a by blast
  have "conflicts [p, ''line_item''] (model_init st' m r') (model_init st m r)"
    using a by (simp add: conflicts_def model_init_parent[OF assms(2)]
        model_init_line_item[OF assms(1)])
  note d = duplicate_rejected[OF item_not_Filing[OF assms(1)] e
      item_unique_together[OF assms] this]
  show "snd (create st' m r') = st'" by (rule d(1))
  show "\<exists>c. fst (create st' m r') = Inl (IntegrityError c)" by (rule d(2))
  assume "list_all (\<lambda>n. r' n \<noteq> None) (required m) \<and> r' ''id'' = None"
  then show "create st' m r' = (Inl (IntegrityError (Unique [p, ''line_item''])), st')"
    using d(3) by simp
qed



section \<open>The scenario of the spec\<close>

lemma unique_violations_empty_table: "tables st m = [] \<Longrightarrow> unique_violations st m r = []"
  by (simp add: unique_violations_def)

lemma next_id_empty_table: "tables st m = [] \<Longrightarrow> sequence st m = 0 \<Longrightarrow> next_id st m = 1"
  by (simp add: next_id_def)

lemma sequence_insert_row_other: "m' \<noteq> m \<Longrightarrow> sequence (insert_row st m r) m' = sequence st m'"
  by (simp add: insert_row_def)

lemma sequence_empty_store: "sequence empty_store m = 0"
  by (simp add: empty_store_def)

lemma filing_1001_simps:
  "filing_1001 ''filing_id'' = Some (IntV 1001)"
  "filing_1001 ''amendment_count'' = Some (IntV 0)"
  "filing_1001 ''from_date'' = Some (DateV 2020 1 1)"
  "filing_1001 ''thru_date'' = Some (DateV 2020 6 30)"
  "filing_1001 ''monetary_contributions'' = Some (IntV 5000)"
  by (simp_all add: filing_1001_def)

lemma item_1001_1_simps:
  "item_1001_1 ''filing'' = Some (IntV 1001)" "item_1001_1 ''id'' = None"
  "item_1001_1 ''line_item'' = Some (IntV 1)" "item_1001_1 ''amount'' = Some (DecV 250000)"
  by (simp_all add: item_1001_1_def)

lemma Filing_fields:
  "Field ''filing_id'' IntegerField False True \<in> set (fields Form460Filing)"
  "Field ''amendment_count'' IntegerField False False \<in> set (fields Form460Filing)"
  "Field ''monetary_contributions'' IntegerField True False \<in> set (fields Form460Filing)"
  by (simp_all add: decl_defs)

lemma model_init_Filing:
  "model_init st Form460Filing kw ''filing_id'' = kw ''filing_id''"
  "model_init st Form460Filing kw ''amendment_count'' = kw ''amendment_count''"
  "model_init st Form460Filing kw ''monetary_contributions'' = kw ''monetary_contributions''"
  by (simp_all add: model_init_plain[OF Filing_fields(1)] model_init_plain[OF Filing_fields(2)]
      model_init_plain[OF Filing_fields(3)])

lemma monetary_contributions_field:
  "Field ''monetary_contributions'' IntegerField True False \<in> set (fields Form460FilingVersion)"
  by (simp add: decl_defs)

lemma amount_field_A:
  "Field ''amount'' (DecimalField 14 2) False False \<in> set (fields Form460ScheduleAItem)"
  by (simp add: decl_defs)

lemma create_filing_1001:
  "create empty_store Form460Filing filing_1001 =
     (Inr (IntV 1001),
      insert_row empty_store Form460Filing (model_init empty_store Form460Filing filing_1001))"
proof -
  have "list_all (\<lambda>n. filing_1001 n \<noteq> None) (required Form460Filing)"
    by (simp add: required_simps filing_1001_simps)
  from create_ok[OF required_present_Filing[OF this] unique_violations_empty
      fk_violations_simps(1)]
  show ?thesis
    by (simp add: pk_name_Filing model_init_Filing filing_1001_simps)
qed

lemma store_1_tables:
  "tables store_1 Form460Filing = [model_init empty_store Form460Filing filing_1001]"
  "m \<noteq> Form460Filing \<Longrightarrow> tables store_1 m = []"
  "m \<noteq> Form460Filing \<Longrightarrow> sequence store_1 m = 0"
  by (simp_all add: store_1_def create_filing_1001 tables_insert_row tables_empty_store
      sequence_insert_row_other sequence_empty_store)

lemma create_version_1001_0:
  "create store_1 Form460FilingVersion (version_1001 0) =
     (Inr (IntV 1),
      insert_row store_1 Form460FilingVersion
        (model_init store_1 Form460FilingVersion (version_1001 0)))"
proof -
  have e: "tables store_1 Form460FilingVersion = []" by (simp add: store_1_tables)
  have n: "next_id store_1 Form460FilingVersion = 1"
    by (rule next_id_empty_table) (simp_all add: store_1_tables)
  from create_ok[OF required_present[OF _ version_1001_required]
      unique_violations_empty_table[of store_1 Form460FilingVersion, OF e]
      fk_violations_simps(2)]
  show ?thesis
    by (simp add: pk_name_other model_init_id version_1001_simps n)
qed

lemma store_2_tables:
  "tables store_2 Form460Filing = [model_init empty_store Form460Filing filing_1001]"
  "tables store_2 Form460FilingVersion =
     [model_init store_1 Form460FilingVersion (version_1001 0)]"
  "m \<noteq> Form460Filing \<Longrightarrow> m \<noteq> Form460FilingVersion \<Longrightarrow> tables store_2 m = []"
  "m \<noteq> Form460Filing \<Longrightarrow> m \<noteq> Form460FilingVersion \<Longrightarrow> sequence store_2 m = 0"
  by (simp_all add: store_2_def create_version_1001_0 store_1_tables tables_insert_row
      sequence_insert_row_other)

lemma exists_filing_1001: "exists_pk store_2 Form460Filing (IntV 1001)"
  by (simp add: exists_pk_def store_2_tables pk_name_Filing model_init_Filing filing_1001_simps)

lemma model_init_item_1001_1:
  "model_init st Form460ScheduleAItem item_1001_1 ''filing'' = Some (IntV 1001)"
  "model_init st Form460ScheduleAItem item_1001_1 ''line_item'' = Some (IntV 1)"
  "model_init st Form460ScheduleAItem item_1001_1 ''amount'' = Some (DecV 250000)"
  by (simp_all add: model_init_parent parent_field_simps A_current model_init_line_item
      model_init_plain[OF amount_field_A] item_1001_1_simps)

lemma create_item_1001_1:
  "create store_2 Form460ScheduleAItem item_1001_1 =
     (Inr (IntV 1),
      insert_row store_2 Form460ScheduleAItem
        (model_init store_2 Form460ScheduleAItem item_1001_1))"
proof -
  have e: "tables store_2 Form460ScheduleAItem = []" by (simp add: store_2_tables)
  have n: "next_id store_2 Form460ScheduleAItem = 1"
    by (rule next_id_empty_table) (simp_all add: store_2_tables)
  have r: "list_all (\<lambda>n. item_1001_1 n \<noteq> None) (required Form460ScheduleAItem)"
    by (simp add: required_simps item_1001_1_simps)
  have fk: "fk_violations store_2 Form460ScheduleAItem
      (model_init store_2 Form460ScheduleAItem item_1001_1) = []"
    by (simp add: fk_violations_simps A_current model_init_item_1001_1 exists_filing_1001)
  from create_ok[OF required_present[OF _ r]
      unique_violations_empty_table[of store_2 Form460ScheduleAItem, OF e] fk]
  show ?thesis
    by (simp add: pk_name_other model_init_id item_1001_1_simps n)
qed

lemma store_3_tables:
  "tables store_3 Form460Filing = [model_init empty_store Form460Filing filing_1001]"
  "tables store_3 Form460FilingVersion =
     [model_init store_1 Form460FilingVersion (version_1001 0)]"
  "tables store_3 Form460ScheduleAItem =
     [model_init store_2 Form460ScheduleAItem item_1001_1]"
  by (simp_all add: store_3_def create_item_1001_1 store_2_tables tables_insert_row)

text \<open>
  C8. From the empty store, creating the filing 1001 (amendment count 0, period
  2020-01-01 to 2020-06-30, monetary contributions 5000), its version with
  \<^verbatim>\<open>amend_id\<close> 0 and the same totals, and a Schedule A item (filing 1001, line item 1,
  amount 2500.00) succeeds each time; the lookup of the Schedule A table by
  (filing 1001, line item 1) matches exactly one row, whose amount is 2500.00, and the
  filing 1001 has amendment count 0.
\<close>

theorem scenario_lookup:
  "fst (create empty_store Form460Filing filing_1001) = Inr (IntV 1001) \<and>
   fst (create store_1 Form460FilingVersion (version_1001 0)) = Inr (IntV 1) \<and>
   fst (create store_2 Form460ScheduleAItem item_1001_1) = Inr (IntV 1) \<and>
   map (\<lambda>e. e ''monetary_contributions'') (tables store_3 Form460FilingVersion) =
     map (\<lambda>e. e ''monetary_contributions'') (tables store_3 Form460Filing) \<and>
   get store_3 Form460ScheduleAItem [(''filing'', IntV 1001), (''line_item'', IntV 1)] =
     Inr (model_init store_2 Form460ScheduleAItem item_1001_1) \<and>
   model_init store_2 Form460ScheduleAItem item_1001_1 ''amount'' = Some (DecV 250000) \<and>
   py_str (model_init store_2 Form460ScheduleAItem item_1001_1 ''amount'') = ''2500.00'' \<and>
   get store_3 Form460Filing [(''filing_id'', IntV 1001)] =
     Inr (model_init empty_store Form460Filing filing_1001) \<and>
   model_init empty_store Form460Filing filing_1001 ''amendment_count'' = Some (IntV 0)"
proof -
  have "model_init store_1 Form460FilingVersion (version_1001 0) ''monetary_contributions'' =
      Some (IntV 5000)"
    by (simp add: model_init_plain[OF monetary_contributions_field] version_1001_def)
  moreover have "py_str (Some (DecV 250000)) = ''2500.00''"
    by (simp add: py_str_def zfill_def)
  ultimately show ?thesis
    by (simp add: create_filing_1001 create_version_1001_0 create_item_1001_1 store_3_tables
        get_def filter_rows_def model_init_item_1001_1 model_init_Filing filing_1001_simps)
qed

theorem duplicate_item_rejected_witness:
  "length (filter_rows store_3 Form460ScheduleAItem
      [(''filing'', IntV 1001), (''line_item'', IntV 1)]) \<le> 1 \<and>
   create store_3 Form460ScheduleAItem item_1001_1 =
     (Inl (IntegrityError (Unique [''filing'', ''line_item''])), store_3)"
proof -
  have p: "parent_field Form460ScheduleAItem = Some ''filing''"
    by (simp add: parent_field_simps A_current)
  have r: "reachable store_3"
    unfolding store_3_def store_2_def store_1_def
    by (intro reachable_create reachable_empty)
  have c: "create store_2 Form460ScheduleAItem item_1001_1 = (Inr (IntV 1), store_3)"
    by (simp add: store_3_def create_item_1001_1)
  have q: "list_all (\<lambda>n. item_1001_1 n \<noteq> None) (required Form460ScheduleAItem) \<and>
      item_1001_1 ''id'' = None"
    by (simp add: required_simps item_1001_1_simps)
  show ?thesis
    using duplicate_item_rejected[OF disjI1[OF A_current] p,
        where s = store_3 and v = "IntV 1001" and l = "IntV 1" and st = store_2
          and st' = store_3 and r = item_1001_1 and r' = item_1001_1 and pk = "IntV 1"]
      r c q item_1001_1_simps(1,3)
    by blast
qed


section \<open>Absent summary totals\<close>

lemma fields_Filing:
  "fields Form460Filing =
     Form460FilingBase @
     [Field ''filing_id'' IntegerField False True,
      Field ''amendment_count'' IntegerField False False]"
  by (simp add: fields_def)

lemma summary_total_field:
  "n \<in> set summary_totals \<Longrightarrow> Field n IntegerField True False \<in> set (fields Form460Filing)"
  by (simp add: fields_Filing Form460FilingBase_def)

lemma created_filing_found:
  assumes "create st Form460Filing kw = (Inr pk, st')"
  shows "get st' Form460Filing [(''filing_id'', pk)] = Inr (model_init st Form460Filing kw)"
proof -
  let ?r = "model_init st Form460Filing kw"
  note s = create_success[OF assms]
  have "filter (\<lambda>n. kw n = None) (not_null_columns Form460Filing) = []"
    using s by (simp add: null_violations_init)
  then have "kw ''filing_id'' \<noteq> None"
    by (simp add: not_null_columns_simps split: if_splits)
  then have pk: "?r ''filing_id'' = Some pk"
    using s by (auto simp: pk_name_Filing model_init_Filing)
  have "\<not> list_ex (conflicts [''filing_id''] ?r) (tables st Form460Filing)"
    using s by (simp add: unique_violations_def unique_constraints_def pk_name_Filing
        split: if_splits)
  then have "filter (\<lambda>e. e ''filing_id'' = Some pk) (tables st Form460Filing) = []"
    using pk by (auto simp: filter_empty_conv list_ex_iff conflicts_def)
  then show ?thesis
    using s pk by (simp add: get_def filter_rows_def tables_insert_row)
qed

text \<open>
  C6. A filing written with all nineteen summary totals absent is read back, by its
  filing identifier, as the row that was written, and each of the nineteen totals of
  that row is absent: none is replaced by zero or by any other default.
\<close>

theorem absent_totals_roundtrip:
  assumes "create st Form460Filing kw = (Inr pk, st')"
    and "list_all (\<lambda>n. kw n = None) summary_totals"
  shows "get st' Form460Filing [(''filing_id'', pk)] = Inr (model_init st Form460Filing kw) \<and>
         list_all (\<lambda>n. model_init st Form460Filing kw n = None) summary_totals \<and>
         length summary_totals = 19"
proof (intro conjI)
  show "get st' Form460Filing [(''filing_id'', pk)] = Inr (model_init st Form460Filing kw)"
    using assms(1) by (rule created_filing_found)
  have "model_init st Form460Filing kw n = kw n" if "n \<in> set summary_totals" for n
    using model_init_plain[OF summary_total_field[OF that]] by simp
  then show "list_all (\<lambda>n. model_init st Form460Filing kw n = None) summary_totals"
    using assms(2) by (simp add: list_all_iff)
  show "length summary_totals = 19" by (simp add: summary_totals_def)
qed

lemma bare_filing_totals: "list_all (\<lambda>n. bare_filing n = None) summary_totals"
  by (simp add: bare_filing_def summary_totals_def)

lemma create_bare_filing:
  "create empty_store Form460Filing bare_filing =
     (Inr (IntV 1001),
      insert_row empty_store Form460Filing (model_init empty_store Form460Filing bare_filing))"
proof -
  have "list_all (\<lambda>n. bare_filing n \<noteq> None) (required Form460Filing)"
    by (simp add: required_simps bare_filing_simps)
  from create_ok[OF required_present_Filing[OF this] unique_violations_empty
      fk_violations_simps(1)]
  show ?thesis
    by (simp add: pk_name_Filing model_init_Filing bare_filing_simps)
qed

theorem absent_totals_roundtrip_witness:
  "get (insert_row empty_store Form460Filing (model_init empty_store Form460Filing bare_filing))
     Form460Filing [(''filing_id'', IntV 1001)] =
     Inr (model_init empty_store Form460Filing bare_filing) \<and>
   list_all (\<lambda>n. model_init empty_store Form460Filing bare_filing n = None) summary_totals"
  using absent_totals_roundtrip[OF create_bare_filing bare_filing_totals] by simp

section \<open>Deleting a filing\<close>

lemma fks_to_Filing:
  "fks_to Form460Filing Form460Filing = []"
  "fks_to Form460Filing Form460FilingVersion = [(''filing'', SET_NULL)]"
  "m \<in> set current_items \<Longrightarrow> fks_to Form460Filing m = [(''filing'', SET_NULL)]"
  "m \<in> set version_items \<Longrightarrow> fks_to Form460Filing m = []"
  by (auto simp: fks_to_def decl_defs List.map_filter_simps current_items_def
      version_items_def)

lemma fks_to_Filing_SET_NULL: "(n, od) \<in> set (fks_to Form460Filing m) \<Longrightarrow> od = SET_NULL"
  using model_cases[of m] by (auto simp: fks_to_Filing)

lemma not_protected_Filing: "\<not> protected st Form460Filing pk"
  using fks_to_Filing_SET_NULL by (auto simp: protected_def list_ex_iff)

lemma on_delete_row_Filing:
  "on_delete_row Form460Filing pk Form460Filing e = e"
  "on_delete_row Form460Filing pk Form460FilingVersion e =
     (if e ''filing'' = Some pk then e(''filing'' := None) else e)"
  "m \<in> set current_items \<Longrightarrow>
   on_delete_row Form460Filing pk m e =
     (if e ''filing'' = Some pk then e(''filing'' := None) else e)"
  "m \<in> set version_items \<Longrightarrow> on_delete_row Form460Filing pk m e = e"
  by (simp_all add: on_delete_row_def fks_to_Filing)

lemma on_delete_row_Filing_fun:
  "on_delete_row Form460Filing pk Form460Filing = (\<lambda>e. e)"
  "on_delete_row Form460Filing pk Form460FilingVersion =
     (\<lambda>e. if e ''filing'' = Some pk then e(''filing'' := None) else e)"
  "m \<in> set current_items \<Longrightarrow>
   on_delete_row Form460Filing pk m =
     (\<lambda>e. if e ''filing'' = Some pk then e(''filing'' := None) else e)"
  "m \<in> set version_items \<Longrightarrow> on_delete_row Form460Filing pk m = (\<lambda>e. e)"
  by (rule ext, simp add: on_delete_row_Filing)+

lemma current_not_Filing: "m \<in> set current_items \<Longrightarrow> m \<noteq> Form460Filing"
  by (auto simp: current_items_def)

lemma version_not_Filing: "m \<in> set version_items \<Longrightarrow> m \<noteq> Form460Filing"
  by (auto simp: version_items_def)

lemma delete_Filing_present:
  "exists_pk st Form460Filing pk \<Longrightarrow>
   delete st Form460Filing pk =
     (Inr (),
      Store
        (\<lambda>m'. let rows = map (on_delete_row Form460Filing pk m') (tables st m') in
               if m' = Form460Filing then filter (\<lambda>e. e ''filing_id'' \<noteq> Some pk) rows
               else rows)
        (sequence st))"
  by (simp add: delete_def not_protected_Filing pk_name_Filing Let_def cong: if_cong)

lemma store_dangling_tables:
  "tables store_dangling Form460Filing = []"
  "tables store_dangling Form460FilingVersion =
     [model_init empty_store Form460FilingVersion (version_1001 0)]"
proof -
  have c: "create empty_store Form460FilingVersion (version_1001 0) =
      (Inr (IntV 1), insert_row empty_store Form460FilingVersion
         (model_init empty_store Form460FilingVersion (version_1001 0)))"
    using create_ok[of Form460FilingVersion empty_store "version_1001 0",
        OF required_present[OF _ version_1001_required] unique_violations_empty]
    by (simp add: fk_violations_simps pk_name_other model_init_id next_id_empty
        version_1001_simps)
  show "tables store_dangling Form460Filing = []"
    by (simp add: store_dangling_def c tables_insert_row tables_empty_store)
  show "tables store_dangling Form460FilingVersion =
      [model_init empty_store Form460FilingVersion (version_1001 0)]"
    by (simp add: store_dangling_def c tables_insert_row tables_empty_store)
qed

text \<open>
  C4. Deleting a filing that is stored succeeds and removes the rows of the filing
  table with that identifier only. Every version row and every current-tier item row
  stays in its table, in place: a row that referred to the deleted filing differs from
  what it was in its \<^verbatim>\<open>filing\<close> reference alone, which becomes absent, and every other
  row is as it was. The version-tier item tables are untouched. Deleting a filing
  identifier that names no stored filing changes nothing at all.
\<close>

theorem delete_filing_orphans:
  "(exists_pk st Form460Filing pk \<longrightarrow>
      fst (delete st Form460Filing pk) = Inr () \<and>
      tables (snd (delete st Form460Filing pk)) Form460Filing =
        filter (\<lambda>e. e ''filing_id'' \<noteq> Some pk) (tables st Form460Filing) \<and>
      (m = Form460FilingVersion \<or> m \<in> set current_items \<longrightarrow>
         tables (snd (delete st Form460Filing pk)) m =
           map (\<lambda>e. if e ''filing'' = Some pk then e(''filing'' := None) else e)
             (tables st m) \<and>
         length (tables (snd (delete st Form460Filing pk)) m) = length (tables st m)) \<and>
      (m \<in> set version_items \<longrightarrow>
         tables (snd (delete st Form460Filing pk)) m = tables st m)) \<and>
   (\<not> exists_pk st Form460Filing pk \<longrightarrow> delete st Form460Filing pk = (Inr (), st))"
proof (intro conjI impI)
  assume "\<not> exists_pk st Form460Filing pk"
  then show "delete st Form460Filing pk = (Inr (), st)" by (simp add: delete_def)
next
  assume e: "exists_pk st Form460Filing pk"
  note d = delete_Filing_present[OF e]
  show "fst (delete st Form460Filing pk) = Inr ()" by (simp add: d)
  show "tables (snd (delete st Form460Filing pk)) Form460Filing =
      filter (\<lambda>e. e ''filing_id'' \<noteq> Some pk) (tables st Form460Filing)"
    by (simp add: d on_delete_row_Filing_fun)
  show "tables (snd (delete st Form460Filing pk)) m = tables st m"
    if "m \<in> set version_items"
    using that version_not_Filing[OF that] by (simp add: d on_delete_row_Filing_fun)
  assume a: "m = Form460FilingVersion \<or> m \<in> set current_items"
  then have "m \<noteq> Form460Filing" using current_not_Filing by auto
  then show "tables (snd (delete st Form460Filing pk)) m =
      map (\<lambda>e. if e ''filing'' = Some pk then e(''filing'' := None) else e) (tables st m)"
    using a by (auto simp: d on_delete_row_Filing_fun)
  then show "length (tables (snd (delete st Form460Filing pk)) m) = length (tables st m)"
    by simp
qed

theorem delete_filing_orphans_witness:
  "tables (snd (delete store_3 Form460Filing (IntV 1001))) Form460Filing = [] \<and>
   tables (snd (delete store_3 Form460Filing (IntV 1001))) Form460FilingVersion =
     [(model_init store_1 Form460FilingVersion (version_1001 0))(''filing'' := None)] \<and>
   tables (snd (delete store_3 Form460Filing (IntV 1001))) Form460ScheduleAItem =
     [(model_init store_2 Form460ScheduleAItem item_1001_1)(''filing'' := None)] \<and>
   tables (snd (delete store_3 Form460Filing (IntV 1001))) Form460ScheduleAItemVersion =
     tables store_3 Form460ScheduleAItemVersion \<and>
   delete store_dangling Form460Filing (IntV 1001) = (Inr (), store_dangling)"
proof -
  have v: "Form460ScheduleAItemVersion \<in> set version_items"
    by (simp add: version_items_def)
  have f: "model_init store_1 Form460FilingVersion (version_1001 0) ''filing'' =
      Some (IntV 1001)"
    by (simp add: model_init_parent parent_field_simps version_1001_simps)
  have e: "exists_pk store_3 Form460Filing (IntV 1001)"
    by (simp add: exists_pk_def store_3_tables pk_name_Filing model_init_Filing
        filing_1001_simps)
  have n: "\<not> exists_pk store_dangling Form460Filing (IntV 1001)"
    by (simp add: exists_pk_def store_dangling_tables)
  show ?thesis
    using delete_filing_orphans[of store_3 "IntV 1001" Form460FilingVersion]
      delete_filing_orphans[of store_3 "IntV 1001" Form460ScheduleAItem]
      delete_filing_orphans[of store_3 "IntV 1001" Form460ScheduleAItemVersion]
      delete_filing_orphans[of store_dangling "IntV 1001" Form460FilingVersion]
    by (simp add: e n A_current v store_3_tables f model_init_item_1001_1 model_init_Filing
        filing_1001_simps)
qed

section \<open>The string form of a version-tier item\<close>

lemma digits_eval:
  "digits 0 = ''0''" "digits (Suc 0) = ''1''" "digits 1001 = ''1001''"
  by (subst digits.simps, simp)+

declare digits.simps [simp del]

lemma str_of_version_item: "m \<in> set version_items \<Longrightarrow> str_of m st r = version_dash_str st r"
  by (auto simp: version_items_def)

lemma pk_name_FilingVersion: "pk_name Form460FilingVersion = ''id''"
  by (simp add: pk_name_other)

text \<open>
  C10. The string form of a version-tier item row reads its \<^verbatim>\<open>filing_version\<close> parent:
  for a row whose \<^verbatim>\<open>filing_version\<close> is absent it fails with an \<^verbatim>\<open>AttributeError\<close> and
  returns no value, and for a row whose \<^verbatim>\<open>filing_version\<close> names a stored version it
  returns that version's \<^verbatim>\<open>filing_id\<close>, its \<^verbatim>\<open>amend_id\<close> and the row's line item, joined
  by hyphens.
\<close>

theorem version_item_str:
  assumes "m \<in> set version_items"
  shows "(r ''filing_version'' = None \<longrightarrow> str_of m st r = Inl AttributeError) \<and>
         (r ''filing_version'' = Some k \<and>
          find (\<lambda>e. e ''id'' = Some k) (tables st Form460FilingVersion) = Some v \<longrightarrow>
            str_of m st r =
              Inr (py_str (v ''filing'') @ ''-'' @ py_str (v ''amend_id'') @ ''-'' @
                   py_str (r ''line_item'')))"
  by (simp add: str_of_version_item[OF assms] version_dash_str_def related_def
      pk_name_FilingVersion)

theorem version_item_str_witness:
  "str_of Form460ScheduleAItemVersion store_3 orphan_item = Inl AttributeError \<and>
   str_of Form460ScheduleAItemVersion store_3
     [''filing_version'' \<mapsto> IntV 1, ''line_item'' \<mapsto> IntV 1] = Inr ''1001-0-1''"
proof -
  let ?v = "model_init store_1 Form460FilingVersion (version_1001 0)"
  have m: "Form460ScheduleAItemVersion \<in> set version_items"
    by (simp add: version_items_def)
  have "next_id store_1 Form460FilingVersion = 1"
    by (rule next_id_empty_table) (simp_all add: store_1_tables)
  then have id: "?v ''id'' = Some (IntV 1)"
    by (simp add: model_init_id version_1001_simps)
  then have f: "find (\<lambda>e. e ''id'' = Some (IntV 1)) (tables store_3 Form460FilingVersion) =
      Some ?v"
    by (simp add: store_3_tables)
  have o: "orphan_item ''filing_version'' = None"
    by (simp add: orphan_item_def)
  have s: "py_str (?v ''filing'') = ''1001''" "py_str (?v ''amend_id'') = ''0''"
    "py_str (Some (IntV 1)) = ''1''"
    by (simp_all add: model_init_parent parent_field_simps model_init_amend_id
        version_1001_simps py_str_def str_int_def digits_eval)
  show ?thesis
    using version_item_str[OF m, of orphan_item store_3 "IntV 1" ?v]
      version_item_str[OF m, of "[''filing_version'' \<mapsto> IntV 1, ''line_item'' \<mapsto> IntV 1]"
        store_3 "IntV 1" ?v]
    by (simp add: o f s)
qed

end
